theory Spec2Isabelle
  imports Main "HOL-Library.Word"
begin

section \<open>Go values\<close>

text \<open>
  The development embeds \<^verbatim>\<open>pkg/azure/core.go\<close> (the second half of
  \<^verbatim>\<open>src/pkg/azure/fake/mockclient.go\<close>, lines 153-727).

  Conventions of the embedding:
  \<^item> \<^verbatim>\<open>int32\<close> is a 32-bit word, read as two's complement by \<open>sint\<close>;
  \<^item> a pointer that the source dereferences with \<^verbatim>\<open>*p\<close> or compares with \<^verbatim>\<open>nil\<close> is an
    \<open>option\<close>, and dereferencing \<open>None\<close> is the panic \<open>NilPointerDereference\<close>;
  \<^item> a struct pointer that the source only fills with a fresh literal
    (\<^verbatim>\<open>&compute.OSDisk{...}\<close>) or only reads through a field selector is embedded by value;
  \<^item> a Go \<^verbatim>\<open>error\<close> result is the left summand of a sum, a panic is the second
    constructor of \<open>outcome\<close>;
  \<^item> metric counters and informational log lines (\<^verbatim>\<open>spi.OnARMAPISuccess\<close>,
    \<^verbatim>\<open>klog.Infof\<close>, \<^verbatim>\<open>klog.V(2)\<close>, \<^verbatim>\<open>time.Now\<close>) change no value of the program and are
    left out; the arguments they evaluate are kept where evaluating them can panic;
  \<^item> the context \<^verbatim>\<open>ctx\<close> is never cancelled by \<^verbatim>\<open>createVMNicDisk\<close> itself and is left out,
    and the type assertions on the clients (\<^verbatim>\<open>clients.GetNic().(network.InterfacesClient)\<close>,
    \<^verbatim>\<open>clients.GetVM().(compute.VirtualMachinesClient)\<close>) are taken to hold.
\<close>

type_synonym int32 = "32 word"

datatype panic = NilPointerDereference | IndexOutOfRange nat nat

datatype 'a outcome = Returns 'a | Panics panic

text \<open>
  Errors: what a backend call reports (status code and message), and what
  \<^verbatim>\<open>fmt.Errorf\<close> builds from a formatted message.
\<close>

datatype error = DetailedError int string | Errorf string

subsection \<open>Decimal formatting: \<^verbatim>\<open>%d\<close> and \<^verbatim>\<open>strconv.Itoa\<close>\<close>

function natDigits :: "nat \<Rightarrow> string" where
  "natDigits n =
     (if n < 10 then [''0123456789'' ! n]
      else natDigits (n div 10) @ [''0123456789'' ! (n mod 10)])"
  by pat_completeness auto
termination
  by (relation "measure id") auto

declare natDigits.simps [simp del]

definition Itoa :: "int \<Rightarrow> string" where
  "Itoa i = (if i < 0 then CHR ''-'' # natDigits (nat (- i)) else natDigits (nat i))"

subsection \<open>\<^verbatim>\<open>strings.ToLower\<close> and \<^verbatim>\<open>strings.Split\<close>\<close>

text \<open>
  \<^verbatim>\<open>strings.ToLower\<close> scans the bytes; a string without a byte \<open>\<ge> 0x80\<close> is lowered
  byte by byte (\<^verbatim>\<open>c += 'a' - 'A'\<close> for \<^verbatim>\<open>'A' <= c <= 'Z'\<close>), any other string goes
  through \<^verbatim>\<open>strings.Map(unicode.ToLower, s)\<close>, whose Unicode tables are a parameter here.
\<close>

definition isASCII :: "string \<Rightarrow> bool" where
  "isASCII s = list_all (\<lambda>c. (of_char c :: nat) < 128) s"

definition toLowerByte :: "char \<Rightarrow> char" where
  "toLowerByte c =
     (if 65 \<le> (of_char c :: nat) \<and> (of_char c :: nat) \<le> 90
      then char_of ((of_char c :: nat) + 32) else c)"

definition ToLower :: "(string \<Rightarrow> string) \<Rightarrow> string \<Rightarrow> string" where
  "ToLower unicodeLower s = (if isASCII s then map toLowerByte s else unicodeLower s)"

text \<open>\<^verbatim>\<open>strings.Split(s, ":")\<close>: the pieces between the separators, \<open>n + 1\<close> of them for \<open>n\<close> separators.\<close>

fun Split :: "string \<Rightarrow> char \<Rightarrow> string list" where
  "Split [] sep = [[]]"
| "Split (c # cs) sep =
     (if c = sep then [] # Split cs sep
      else (case Split cs sep of
              [] \<Rightarrow> [[c]]
            | p # ps \<Rightarrow> (c # p) # ps))"

text \<open>Indexing a slice: out of range is a run-time panic.\<close>

definition index :: "'a list \<Rightarrow> nat \<Rightarrow> 'a outcome" where
  "index xs i = (if i < length xs then Returns (xs ! i) else Panics (IndexOutOfRange i (length xs)))"

section \<open>Resource naming (lines 183-224)\<close>

definition nicSuffix :: string where "nicSuffix = ''-nic''"
definition diskSuffix :: string where "diskSuffix = ''-os-disk''"
definition dataDiskSuffix :: string where "dataDiskSuffix = ''-data-disk''"

definition prometheusServiceSubnet :: string where "prometheusServiceSubnet = ''subnet''"
definition prometheusServiceVM :: string where "prometheusServiceVM = ''virtual_machine''"
definition prometheusServiceNIC :: string where "prometheusServiceNIC = ''network_interfaces''"
definition prometheusServiceDisk :: string where "prometheusServiceDisk = ''disks''"

definition dependencyNameFromVMName :: "string \<Rightarrow> string \<Rightarrow> string" where
  "dependencyNameFromVMName vmName suffix = vmName @ suffix"

definition dependencyNameFromVMNameAndDependency :: "string \<Rightarrow> string \<Rightarrow> string \<Rightarrow> string" where
  "dependencyNameFromVMNameAndDependency dependency vmName suffix =
     vmName @ ''-'' @ dependency @ suffix"

text \<open>\<^verbatim>\<open>getAzureDataDiskPrefix(name string, lun *int32)\<close> reads \<^verbatim>\<open>*lun\<close> in both branches.\<close>

definition getAzureDataDiskPrefix :: "string \<Rightarrow> int32 option \<Rightarrow> string outcome" where
  "getAzureDataDiskPrefix name lun =
     (if name \<noteq> ''''
      then (case lun of
              None \<Rightarrow> Panics NilPointerDereference
            | Some l \<Rightarrow> Returns (name @ ''-'' @ Itoa (sint l)))
      else (case lun of
              None \<Rightarrow> Panics NilPointerDereference
            | Some l \<Rightarrow> Returns (Itoa (sint l))))"

text \<open>\<^verbatim>\<open>api.AzureDataDisk\<close>, with the fields the source reads.\<close>

record AzureDataDisk =
  add_Name :: string
  add_Lun :: "int32 option"
  add_Caching :: string
  add_StorageAccountType :: string
  add_DiskSizeGB :: int32

text \<open>
  The loop of \<^verbatim>\<open>getAzureDataDiskNames\<close>, from position \<open>i\<close> on; \<^verbatim>\<open>int32(i)\<close> is the
  conversion of the index, which keeps the low 32 bits.
\<close>

fun getAzureDataDiskNames_from :: "nat \<Rightarrow> AzureDataDisk list \<Rightarrow> string \<Rightarrow> string \<Rightarrow> string list outcome" where
  "getAzureDataDiskNames_from i [] vmname suffix = Returns []"
| "getAzureDataDiskNames_from i (disk # rest) vmname suffix =
     (let diskLun = (case add_Lun disk of
                       Some l \<Rightarrow> Some l
                     | None \<Rightarrow> Some (word_of_nat i))
      in case getAzureDataDiskPrefix (add_Name disk) diskLun of
           Panics p \<Rightarrow> Panics p
         | Returns prefix \<Rightarrow>
             (case getAzureDataDiskNames_from (Suc i) rest vmname suffix of
                Panics p \<Rightarrow> Panics p
              | Returns names \<Rightarrow>
                  Returns (dependencyNameFromVMNameAndDependency prefix vmname suffix # names)))"

definition getAzureDataDiskNames :: "AzureDataDisk list \<Rightarrow> string \<Rightarrow> string \<Rightarrow> string list outcome" where
  "getAzureDataDiskNames azureDataDisks vmname suffix =
     getAzureDataDiskNames_from 0 azureDataDisks vmname suffix"

section \<open>Disk set builder (lines 262-298)\<close>

definition CachingTypesNone :: string where "CachingTypesNone = ''None''"
definition DiskCreateOptionTypesEmpty :: string where "DiskCreateOptionTypesEmpty = ''Empty''"

record ManagedDiskParameters =
  mdp_StorageAccountType :: string

record DataDisk =
  dd_Lun :: "int32 option"
  dd_Name :: "string option"
  dd_Caching :: string
  dd_ManagedDisk :: "ManagedDiskParameters option"
  dd_DiskSizeGB :: "int32 option"
  dd_CreateOption :: string

text \<open>One iteration of the loop of \<^verbatim>\<open>generateDataDisks\<close>, at position \<open>i\<close>.\<close>

definition generateDataDisk :: "string \<Rightarrow> nat \<Rightarrow> AzureDataDisk \<Rightarrow> DataDisk outcome" where
  "generateDataDisk vmName i azureDataDisk =
     (let dataDiskLun = (case add_Lun azureDataDisk of
                           Some l \<Rightarrow> Some l
                         | None \<Rightarrow> Some (word_of_nat i))
      in case getAzureDataDiskPrefix (add_Name azureDataDisk) dataDiskLun of
           Panics p \<Rightarrow> Panics p
         | Returns prefix \<Rightarrow>
             (let dataDiskName = dependencyNameFromVMNameAndDependency prefix vmName dataDiskSuffix;
                  caching = (if add_Caching azureDataDisk \<noteq> '''' then add_Caching azureDataDisk
                             else CachingTypesNone);
                  dataDiskSize = add_DiskSizeGB azureDataDisk
              in Returns \<lparr> dd_Lun = dataDiskLun,
                           dd_Name = Some dataDiskName,
                           dd_Caching = caching,
                           dd_ManagedDisk = Some \<lparr> mdp_StorageAccountType = add_StorageAccountType azureDataDisk \<rparr>,
                           dd_DiskSizeGB = Some dataDiskSize,
                           dd_CreateOption = DiskCreateOptionTypesEmpty \<rparr>))"

fun generateDataDisks_from :: "string \<Rightarrow> nat \<Rightarrow> AzureDataDisk list \<Rightarrow> DataDisk list outcome" where
  "generateDataDisks_from vmName i [] = Returns []"
| "generateDataDisks_from vmName i (azureDataDisk # rest) =
     (case generateDataDisk vmName i azureDataDisk of
        Panics p \<Rightarrow> Panics p
      | Returns dataDisk \<Rightarrow>
          (case generateDataDisks_from vmName (Suc i) rest of
             Panics p \<Rightarrow> Panics p
           | Returns dataDisks \<Rightarrow> Returns (dataDisk # dataDisks)))"

definition generateDataDisks :: "string \<Rightarrow> AzureDataDisk list \<Rightarrow> DataDisk list outcome" where
  "generateDataDisks vmName azureDataDisks = generateDataDisks_from vmName 0 azureDataDisks"

section \<open>Data model\<close>

subsection \<open>The provisioning spec: \<^verbatim>\<open>api.AzureProviderSpec\<close>\<close>

record AzureImageReference =
  air_ID :: string
  air_URN :: "string option"

record AzureManagedDiskParameters =
  amd_StorageAccountType :: string

record AzureOSDisk =
  aod_Caching :: string
  aod_ManagedDisk :: AzureManagedDiskParameters
  aod_DiskSizeGB :: int32
  aod_CreateOption :: string

record AzureStorageProfile =
  asp_ImageReference :: AzureImageReference
  asp_OsDisk :: AzureOSDisk
  asp_DataDisks :: "AzureDataDisk list"

record AzureHardwareProfile =
  ahp_VMSize :: string

record AzureSSHPublicKey =
  apk_Path :: string
  apk_KeyData :: string

record AzureSSHConfiguration =
  assh_PublicKeys :: AzureSSHPublicKey

record AzureLinuxConfiguration =
  alc_DisablePasswordAuthentication :: bool
  alc_SSH :: AzureSSHConfiguration

record AzureOSProfile =
  aop_AdminUsername :: string
  aop_LinuxConfiguration :: AzureLinuxConfiguration

record AzureNetworkProfile =
  anp_AcceleratedNetworking :: "bool option"

record AzureSubResource =
  asr_ID :: string

record AzureVirtualMachineProperties =
  avp_HardwareProfile :: AzureHardwareProfile
  avp_StorageProfile :: AzureStorageProfile
  avp_OsProfile :: AzureOSProfile
  avp_NetworkProfile :: AzureNetworkProfile
  avp_AvailabilitySet :: "AzureSubResource option"
  avp_IdentityID :: "string option"
  avp_Zone :: "int option"

record AzureSubnetInfo =
  asi_VnetName :: string
  asi_VnetResourceGroup :: "string option"
  asi_SubnetName :: string

record AzureProviderSpec =
  aps_Location :: string
  aps_Tags :: "string \<rightharpoonup> string"
  aps_Properties :: AzureVirtualMachineProperties
  aps_ResourceGroup :: string
  aps_SubnetInfo :: AzureSubnetInfo

text \<open>The receiver \<^verbatim>\<open>d *MachinePlugin\<close>: the decoded spec and the secret's data.\<close>

type_synonym Secret = "string \<rightharpoonup> string"

record MachinePlugin =
  AzureProviderSpec :: AzureProviderSpec
  Secret :: Secret

subsection \<open>The backend's types: \<^verbatim>\<open>network\<close>, \<^verbatim>\<open>compute\<close>, \<^verbatim>\<open>marketplaceordering\<close>\<close>

record Subnet =
  subnet_ID :: "string option"
  subnet_Name :: "string option"

record InterfaceIPConfigurationPropertiesFormat =
  ipf_PrivateIPAllocationMethod :: string
  ipf_Subnet :: "Subnet option"

record InterfaceIPConfiguration =
  ipc_Name :: "string option"
  ipc_Properties :: InterfaceIPConfigurationPropertiesFormat

record InterfacePropertiesFormat =
  ifp_IPConfigurations :: "InterfaceIPConfiguration list option"
  ifp_EnableIPForwarding :: "bool option"
  ifp_EnableAcceleratedNetworking :: "bool option"

record Interface =
  nic_ID :: "string option"
  nic_Name :: "string option"
  nic_Location :: "string option"
  nic_Properties :: InterfacePropertiesFormat
  nic_Tags :: "string \<rightharpoonup> string option"

record ImageReference =
  ir_ID :: "string option"
  ir_Publisher :: "string option"
  ir_Offer :: "string option"
  ir_Sku :: "string option"
  ir_Version :: "string option"

text \<open>\<^verbatim>\<open>compute.PurchasePlan\<close> of an image, \<^verbatim>\<open>compute.Plan\<close> of a virtual machine.\<close>

record PurchasePlan =
  pp_Publisher :: "string option"
  pp_Name :: "string option"
  pp_Product :: "string option"

record VirtualMachineImage =
  img_Plan :: "PurchasePlan option"

record Plan =
  plan_Name :: "string option"
  plan_Product :: "string option"
  plan_Publisher :: "string option"

record AgreementTerms =
  agr_Accepted :: "bool option"
  agr_Plan :: "string option"

record HardwareProfile =
  hp_VMSize :: string

record OSDisk =
  od_Name :: "string option"
  od_Caching :: string
  od_ManagedDisk :: ManagedDiskParameters
  od_DiskSizeGB :: "int32 option"
  od_CreateOption :: string

record StorageProfile =
  sp_ImageReference :: ImageReference
  sp_OsDisk :: OSDisk
  sp_DataDisks :: "DataDisk list option"

record SSHPublicKey =
  pk_Path :: "string option"
  pk_KeyData :: "string option"

record SSHConfiguration =
  ssh_PublicKeys :: "SSHPublicKey list option"

record LinuxConfiguration =
  lc_DisablePasswordAuthentication :: "bool option"
  lc_SSH :: SSHConfiguration

record OSProfile =
  op_ComputerName :: "string option"
  op_AdminUsername :: "string option"
  op_CustomData :: "string option"
  op_LinuxConfiguration :: LinuxConfiguration

record NetworkInterfaceReference =
  nir_ID :: "string option"
  nir_Primary :: "bool option"

record NetworkProfile =
  np_NetworkInterfaces :: "NetworkInterfaceReference list option"

record SubResource =
  sr_ID :: "string option"

record VirtualMachineProperties =
  vmp_HardwareProfile :: HardwareProfile
  vmp_StorageProfile :: StorageProfile
  vmp_OsProfile :: OSProfile
  vmp_NetworkProfile :: NetworkProfile
  vmp_AvailabilitySet :: "SubResource option"

record VirtualMachineIdentity =
  vmi_Type :: string
  vmi_UserAssignedIdentities :: "string list"

record VirtualMachine =
  vm_Name :: "string option"
  vm_Plan :: "Plan option"
  vm_Location :: "string option"
  vm_Properties :: VirtualMachineProperties
  vm_Zones :: "string list option"
  vm_Identity :: "VirtualMachineIdentity option"
  vm_Tags :: "string \<rightharpoonup> string option"

definition Dynamic :: string where "Dynamic = ''Dynamic''"
definition ResourceIdentityTypeUserAssigned :: string where
  "ResourceIdentityTypeUserAssigned = ''UserAssigned''"

section \<open>Request parameters (lines 226-421)\<close>

text \<open>\<^verbatim>\<open>tagList[idx] = to.StringPtr(element)\<close> for every entry of the spec's tags.\<close>

definition tagListOf :: "(string \<rightharpoonup> string) \<Rightarrow> (string \<rightharpoonup> string option)" where
  "tagListOf tags = (\<lambda>idx. map_option Some (tags idx))"

definition getNICParameters :: "MachinePlugin \<Rightarrow> string \<Rightarrow> Subnet \<Rightarrow> Interface" where
  "getNICParameters d vmName subnet =
     (let nicName = dependencyNameFromVMName vmName nicSuffix;
          location = aps_Location (AzureProviderSpec d);
          enableIPForwarding = True;
          tagList = tagListOf (aps_Tags (AzureProviderSpec d))
      in \<lparr> nic_ID = None,
           nic_Name = Some nicName,
           nic_Location = Some location,
           nic_Properties =
             \<lparr> ifp_IPConfigurations = Some
                 [\<lparr> ipc_Name = Some nicName,
                    ipc_Properties = \<lparr> ipf_PrivateIPAllocationMethod = Dynamic,
                                       ipf_Subnet = Some subnet \<rparr> \<rparr>],
               ifp_EnableIPForwarding = Some enableIPForwarding,
               ifp_EnableAcceleratedNetworking =
                 anp_AcceleratedNetworking (avp_NetworkProfile (aps_Properties (AzureProviderSpec d))) \<rparr>,
           nic_Tags = tagList \<rparr>)"

text \<open>
  \<^verbatim>\<open>getImageReference\<close>: with an empty ID it reads \<^verbatim>\<open>*imageRefClass.URN\<close> and then
  \<^verbatim>\<open>splits[0]\<close>, \<^verbatim>\<open>splits[1]\<close>, \<^verbatim>\<open>splits[2]\<close>, \<^verbatim>\<open>splits[3]\<close> in this order.
\<close>

definition getImageReference :: "MachinePlugin \<Rightarrow> ImageReference outcome" where
  "getImageReference d =
     (let imageRefClass = asp_ImageReference (avp_StorageProfile (aps_Properties (AzureProviderSpec d)))
      in if air_ID imageRefClass \<noteq> ''''
         then Returns \<lparr> ir_ID = Some (air_ID imageRefClass), ir_Publisher = None, ir_Offer = None,
                        ir_Sku = None, ir_Version = None \<rparr>
         else (case air_URN imageRefClass of
                 None \<Rightarrow> Panics NilPointerDereference
               | Some urn \<Rightarrow>
                   (let splits = Split urn (CHR '':'')
                    in case index splits 0 of Panics p \<Rightarrow> Panics p | Returns publisher \<Rightarrow>
                       (case index splits 1 of Panics p \<Rightarrow> Panics p | Returns offer \<Rightarrow>
                       (case index splits 2 of Panics p \<Rightarrow> Panics p | Returns sku \<Rightarrow>
                       (case index splits 3 of Panics p \<Rightarrow> Panics p | Returns version \<Rightarrow>
                          Returns \<lparr> ir_ID = None, ir_Publisher = Some publisher, ir_Offer = Some offer,
                                    ir_Sku = Some sku, ir_Version = Some version \<rparr>))))))"

text \<open>
  \<^verbatim>\<open>getVMParameters\<close>. \<^verbatim>\<open>base64.StdEncoding.EncodeToString\<close> is the parameter \<open>encode\<close>;
  a key missing from the secret's data reads as the empty byte string. The three
  statements after the literal update it in the source's order.
\<close>

definition getVMParameters ::
  "(string \<Rightarrow> string) \<Rightarrow> MachinePlugin \<Rightarrow> string \<Rightarrow> VirtualMachineImage option \<Rightarrow> string
     \<Rightarrow> VirtualMachine outcome" where
  "getVMParameters encode d vmName vmImageRef networkInterfaceReferenceID =
     (let props = aps_Properties (AzureProviderSpec d);
          diskName = dependencyNameFromVMName vmName diskSuffix;
          UserDataEnc = encode (case Secret d ''userData'' of Some v \<Rightarrow> v | None \<Rightarrow> '''');
          location = aps_Location (AzureProviderSpec d);
          tagList = tagListOf (aps_Tags (AzureProviderSpec d))
      in case getImageReference d of
           Panics p \<Rightarrow> Panics p
         | Returns imageReference \<Rightarrow>
      (let plan = (case vmImageRef of
                     None \<Rightarrow> None
                   | Some img \<Rightarrow>
                       (case img_Plan img of
                          None \<Rightarrow> None
                        | Some pl \<Rightarrow> Some \<lparr> plan_Name = pp_Name pl, plan_Product = pp_Product pl,
                                            plan_Publisher = pp_Publisher pl \<rparr>));
           VMParameters =
             \<lparr> vm_Name = Some vmName,
               vm_Plan = plan,
               vm_Location = Some location,
               vm_Properties =
                 \<lparr> vmp_HardwareProfile = \<lparr> hp_VMSize = ahp_VMSize (avp_HardwareProfile props) \<rparr>,
                   vmp_StorageProfile =
                     \<lparr> sp_ImageReference = imageReference,
                       sp_OsDisk =
                         \<lparr> od_Name = Some diskName,
                           od_Caching = aod_Caching (asp_OsDisk (avp_StorageProfile props)),
                           od_ManagedDisk =
                             \<lparr> mdp_StorageAccountType =
                                 amd_StorageAccountType (aod_ManagedDisk (asp_OsDisk (avp_StorageProfile props))) \<rparr>,
                           od_DiskSizeGB = Some (aod_DiskSizeGB (asp_OsDisk (avp_StorageProfile props))),
                           od_CreateOption = aod_CreateOption (asp_OsDisk (avp_StorageProfile props)) \<rparr>,
                       sp_DataDisks = None \<rparr>,
                   vmp_OsProfile =
                     \<lparr> op_ComputerName = Some vmName,
                       op_AdminUsername = Some (aop_AdminUsername (avp_OsProfile props)),
                       op_CustomData = Some UserDataEnc,
                       op_LinuxConfiguration =
                         \<lparr> lc_DisablePasswordAuthentication =
                             Some (alc_DisablePasswordAuthentication (aop_LinuxConfiguration (avp_OsProfile props))),
                           lc_SSH =
                             \<lparr> ssh_PublicKeys = Some
                                 [\<lparr> pk_Path = Some (apk_Path (assh_PublicKeys (alc_SSH (aop_LinuxConfiguration (avp_OsProfile props))))),
                                    pk_KeyData = Some (apk_KeyData (assh_PublicKeys (alc_SSH (aop_LinuxConfiguration (avp_OsProfile props))))) \<rparr>] \<rparr> \<rparr> \<rparr>,
                   vmp_NetworkProfile =
                     \<lparr> np_NetworkInterfaces = Some
                         [\<lparr> nir_ID = Some networkInterfaceReferenceID, nir_Primary = Some True \<rparr>] \<rparr>,
                   vmp_AvailabilitySet = None \<rparr>,
               vm_Zones = None,
               vm_Identity = None,
               vm_Tags = tagList \<rparr>
       in case (if asp_DataDisks (avp_StorageProfile props) \<noteq> []
                then (case generateDataDisks vmName (asp_DataDisks (avp_StorageProfile props)) of
                        Panics p \<Rightarrow> Panics p
                      | Returns dataDisks \<Rightarrow>
                          Returns (VMParameters
                            \<lparr> vm_Properties := (vm_Properties VMParameters)
                                \<lparr> vmp_StorageProfile := (vmp_StorageProfile (vm_Properties VMParameters))
                                    \<lparr> sp_DataDisks := Some dataDisks \<rparr> \<rparr> \<rparr>))
                else Returns VMParameters) of
            Panics p \<Rightarrow> Panics p
          | Returns VMParameters1 \<Rightarrow>
       (let VMParameters2 =
              (case avp_Zone props of
                 Some zone \<Rightarrow> VMParameters1 \<lparr> vm_Zones := Some [Itoa zone] \<rparr>
               | None \<Rightarrow>
                   (case avp_AvailabilitySet props of
                      Some availabilitySet \<Rightarrow>
                        VMParameters1
                          \<lparr> vm_Properties := (vm_Properties VMParameters1)
                              \<lparr> vmp_AvailabilitySet := Some \<lparr> sr_ID = Some (asr_ID availabilitySet) \<rparr> \<rparr> \<rparr>
                    | None \<Rightarrow> VMParameters1));
            VMParameters3 =
              (case avp_IdentityID props of
                 Some identityID \<Rightarrow>
                   (if identityID \<noteq> ''''
                    then VMParameters2
                           \<lparr> vm_Identity := Some \<lparr> vmi_Type = ResourceIdentityTypeUserAssigned,
                                                   vmi_UserAssignedIdentities = [identityID] \<rparr> \<rparr>
                    else VMParameters2)
               | None \<Rightarrow> VMParameters2)
        in Returns VMParameters3)))"

section \<open>The backend and the collaborators\<close>

text \<open>
  The backend is a state of an arbitrary type \<open>'s\<close>; every operation on it takes the state
  and returns its result with the new state. The world of a run is this state together
  with the trace of the operations issued so far, in order, and of the clean-up errors
  written to the log.
\<close>

type_synonym future = nat

datatype fmtArg = StrArg string | ErrArg error

datatype event =
    Setup_called
  | Subnet_Get_called string string string
  | Nic_CreateOrUpdate_called string string Interface
  | NICFuture_WaitForCompletionRef_called future
  | NICFuture_Result_called future
  | Images_Get_called string string string string string
  | Marketplace_Get_called string string string
  | Marketplace_Create_called string string string AgreementTerms
  | VM_CreateOrUpdate_called string string VirtualMachine
  | VMFuture_WaitForCompletionRef_called future
  | VMFuture_Result_called future
  | VM_Get_called string string
  | WaitForDataDiskDetachment_called string VirtualMachine
  | DeleteVM_called string string
  | FetchAttachedVMfromNIC_called string string
  | DeleteNIC_called string string
  | DiskDeleter_called string string
  | klog_Errorf string error

record 's world =
  backend :: 's
  trace :: "event list"

record MachineClass =
  mc_Name :: string
  mc_ProviderSpecRaw :: string

record CreateMachineRequest =
  req_MachineName :: string
  req_MachineClass :: MachineClass
  req_Secret :: Secret

text \<open>
  The collaborators that are not part of \<^verbatim>\<open>core.go\<close> are parameters: the clients that
  \<^verbatim>\<open>d.SPI.Setup\<close> returns, the helpers of package \<^verbatim>\<open>spi\<close>, the decoder of the
  provider spec, and the two library functions that need tables
  (\<^verbatim>\<open>unicode.ToLower\<close>, \<^verbatim>\<open>base64\<close>). \<open>spi_DiskDeleter\<close> is the closure that
  \<^verbatim>\<open>spi.GetDeleterForDisk\<close> returns, when it is run; \<open>spi_RunInParallel\<close> receives the
  closures and decides how they run.
\<close>

record 's env =
  decodeProviderSpecAndSecret :: "MachineClass \<Rightarrow> Secret \<Rightarrow> error + AzureProviderSpec"
  SPI_Setup :: "Secret \<Rightarrow> 's \<Rightarrow> error option \<times> 's"
  Subnet_Get :: "string \<Rightarrow> string \<Rightarrow> string \<Rightarrow> 's \<Rightarrow> (error + Subnet) \<times> 's"
  Nic_CreateOrUpdate :: "string \<Rightarrow> string \<Rightarrow> Interface \<Rightarrow> 's \<Rightarrow> (error + future) \<times> 's"
  NICFuture_WaitForCompletionRef :: "future \<Rightarrow> 's \<Rightarrow> error option \<times> 's"
  NICFuture_Result :: "future \<Rightarrow> 's \<Rightarrow> (error + Interface) \<times> 's"
  Images_Get :: "string \<Rightarrow> string \<Rightarrow> string \<Rightarrow> string \<Rightarrow> string \<Rightarrow> 's
                   \<Rightarrow> (error + VirtualMachineImage) \<times> 's"
  Marketplace_Get :: "string \<Rightarrow> string \<Rightarrow> string \<Rightarrow> 's \<Rightarrow> (error + AgreementTerms) \<times> 's"
  Marketplace_Create :: "string \<Rightarrow> string \<Rightarrow> string \<Rightarrow> AgreementTerms \<Rightarrow> 's \<Rightarrow> error option \<times> 's"
  VM_CreateOrUpdate :: "string \<Rightarrow> string \<Rightarrow> VirtualMachine \<Rightarrow> 's \<Rightarrow> (error + future) \<times> 's"
  VMFuture_WaitForCompletionRef :: "future \<Rightarrow> 's \<Rightarrow> error option \<times> 's"
  VMFuture_Result :: "future \<Rightarrow> 's \<Rightarrow> (error + VirtualMachine) \<times> 's"
  VM_Get :: "string \<Rightarrow> string \<Rightarrow> 's \<Rightarrow> (error + VirtualMachine) \<times> 's"
  spi_WaitForDataDiskDetachment :: "string \<Rightarrow> VirtualMachine \<Rightarrow> 's \<Rightarrow> 's"
  spi_DeleteVM :: "string \<Rightarrow> string \<Rightarrow> 's \<Rightarrow> error option \<times> 's"
  spi_FetchAttachedVMfromNIC :: "string \<Rightarrow> string \<Rightarrow> 's \<Rightarrow> (error + string) \<times> 's"
  spi_DeleteNIC :: "string \<Rightarrow> string \<Rightarrow> 's \<Rightarrow> error option \<times> 's"
  spi_DiskDeleter :: "string \<Rightarrow> string \<Rightarrow> 's \<Rightarrow> error option \<times> 's"
  spi_RunInParallel :: "('s world \<Rightarrow> error option \<times> 's world) list \<Rightarrow> 's world
                          \<Rightarrow> error option \<times> 's world"
  spi_NotFound :: "error \<Rightarrow> bool"
  spi_OnARMAPIErrorFail :: "string \<Rightarrow> error \<Rightarrow> string \<Rightarrow> fmtArg list \<Rightarrow> error"
  unicode_ToLower :: "string \<Rightarrow> string"
  base64_EncodeToString :: "string \<Rightarrow> string"

text \<open>Issuing one backend operation: run it on the backend state and record it.\<close>

definition call :: "event \<Rightarrow> ('s \<Rightarrow> 'a \<times> 's) \<Rightarrow> 's world \<Rightarrow> 'a \<times> 's world" where
  "call ev f w =
     (case f (backend w) of (r, s') \<Rightarrow> (r, \<lparr> backend = s', trace = trace w @ [ev] \<rparr>))"

definition logged :: "event \<Rightarrow> 's world \<Rightarrow> 's world" where
  "logged ev w = \<lparr> backend = backend w, trace = trace w @ [ev] \<rparr>"

section \<open>Teardown (lines 638-683)\<close>

text \<open>The closure \<^verbatim>\<open>nicDeleter\<close> (lines 656-668).\<close>

definition nicDeleter :: "'s env \<Rightarrow> string \<Rightarrow> string \<Rightarrow> 's world \<Rightarrow> error option \<times> 's world" where
  "nicDeleter env resourceGroupName nicName w =
     (case call (FetchAttachedVMfromNIC_called resourceGroupName nicName)
                (spi_FetchAttachedVMfromNIC env resourceGroupName nicName) w of
        (Inl err, w1) \<Rightarrow>
          (if spi_NotFound env err then (None, w1) else (Some err, w1))
      | (Inr vmHoldingNic, w1) \<Rightarrow>
          (if vmHoldingNic \<noteq> ''''
           then (Some (Errorf (''Cannot delete NIC '' @ nicName @ '' because it is attached to VM ''
                                @ vmHoldingNic)), w1)
           else call (DeleteNIC_called resourceGroupName nicName)
                     (spi_DeleteNIC env resourceGroupName nicName) w1))"

definition diskDeleter :: "'s env \<Rightarrow> string \<Rightarrow> string \<Rightarrow> 's world \<Rightarrow> error option \<times> 's world" where
  "diskDeleter env resourceGroupName diskName w =
     call (DiskDeleter_called resourceGroupName diskName)
          (spi_DiskDeleter env resourceGroupName diskName) w"

text \<open>The list \<^verbatim>\<open>deleters\<close> (lines 670-680) and its run (line 682).\<close>

definition deleters ::
  "'s env \<Rightarrow> string \<Rightarrow> string \<Rightarrow> string \<Rightarrow> string list
     \<Rightarrow> ('s world \<Rightarrow> error option \<times> 's world) list" where
  "deleters env resourceGroupName nicName diskName dataDiskNames =
     [nicDeleter env resourceGroupName nicName, diskDeleter env resourceGroupName diskName]
       @ map (diskDeleter env resourceGroupName) dataDiskNames"

definition runDeleters ::
  "'s env \<Rightarrow> string \<Rightarrow> string \<Rightarrow> string \<Rightarrow> string list \<Rightarrow> 's world
     \<Rightarrow> error option outcome \<times> 's world" where
  "runDeleters env resourceGroupName nicName diskName dataDiskNames w =
     (case spi_RunInParallel env (deleters env resourceGroupName nicName diskName dataDiskNames) w of
        (r, w') \<Rightarrow> (Returns r, w'))"

definition deleteVMNicDisks ::
  "'s env \<Rightarrow> string \<Rightarrow> string \<Rightarrow> string \<Rightarrow> string \<Rightarrow> string list \<Rightarrow> 's world
     \<Rightarrow> error option outcome \<times> 's world" where
  "deleteVMNicDisks env resourceGroupName VMName nicName diskName dataDiskNames w =
     (case call (VM_Get_called resourceGroupName VMName) (VM_Get env resourceGroupName VMName) w of
        (Inr vm, w1) \<Rightarrow>
          (let w2 = \<lparr> backend = spi_WaitForDataDiskDetachment env resourceGroupName vm (backend w1),
                      trace = trace w1 @ [WaitForDataDiskDetachment_called resourceGroupName vm] \<rparr>
           in case call (DeleteVM_called resourceGroupName VMName)
                        (spi_DeleteVM env resourceGroupName VMName) w2 of
                (Some deleteErr, w3) \<Rightarrow> (Returns (Some deleteErr), w3)
              | (None, w3) \<Rightarrow>
                  (case vm_Name vm of
                     None \<Rightarrow> (Panics NilPointerDereference, w3)
                   | Some name \<Rightarrow> runDeleters env resourceGroupName nicName diskName dataDiskNames w3))
      | (Inl vmErr, w1) \<Rightarrow>
          (if \<not> spi_NotFound env vmErr
           then (Returns (Some (spi_OnARMAPIErrorFail env prometheusServiceVM vmErr ''vm.Get'' [])), w1)
           else runDeleters env resourceGroupName nicName diskName dataDiskNames w1))"

section \<open>Provisioning (lines 423-636)\<close>

text \<open>The local variables of \<^verbatim>\<open>createVMNicDisk\<close> (lines 431-457).\<close>

record locals =
  l_vmName :: string
  l_resourceGroupName :: string
  l_vnetName :: string
  l_vnetResourceGroup :: string
  l_subnetName :: string
  l_nicName :: string
  l_diskName :: string
  l_dataDiskNames :: "string list"
  l_machineClassName :: string

text \<open>
  The block that follows every failed step from line 483 on: teardown with the derived
  names, the teardown's error written to the log, and the step's error returned.
\<close>

definition cleanupAndReturn :: "'s env \<Rightarrow> locals \<Rightarrow> error \<Rightarrow> 's world \<Rightarrow> (error + 'a) outcome \<times> 's world" where
  "cleanupAndReturn env l err w =
     (case deleteVMNicDisks env (l_resourceGroupName l) (l_vmName l) (l_nicName l) (l_diskName l)
             (l_dataDiskNames l) w of
        (Panics p, w') \<Rightarrow> (Panics p, w')
      | (Returns deleteErr, w') \<Rightarrow>
          (Returns (Inl err),
           (case deleteErr of
              None \<Rightarrow> w'
            | Some e \<Rightarrow> logged (klog_Errorf ''Error occurred during resource clean up: %s'' e) w')))"

text \<open>Lines 425-473: decoding, the derived names, the clients, the subnet.\<close>

definition prepare ::
  "'s env \<Rightarrow> MachinePlugin \<Rightarrow> CreateMachineRequest \<Rightarrow> 's world
     \<Rightarrow> (error + locals \<times> Subnet) outcome \<times> MachinePlugin \<times> 's world" where
  "prepare env d req w =
     (case decodeProviderSpecAndSecret env (req_MachineClass req) (req_Secret req) of
        Inl err \<Rightarrow> (Returns (Inl err), d, w)
      | Inr providerSpec \<Rightarrow>
          (let d1 = d \<lparr> AzureProviderSpec := providerSpec \<rparr>;
               vmName = ToLower (unicode_ToLower env) (req_MachineName req);
               resourceGroupName = aps_ResourceGroup providerSpec;
               vnetName = asi_VnetName (aps_SubnetInfo providerSpec);
               subnetName = asi_SubnetName (aps_SubnetInfo providerSpec);
               nicName = dependencyNameFromVMName vmName nicSuffix;
               diskName = dependencyNameFromVMName vmName diskSuffix
           in case call Setup_called (SPI_Setup env (req_Secret req)) w of
                (Some err, w1) \<Rightarrow> (Returns (Inl err), d1, w1)
              | (None, w1) \<Rightarrow>
                  (let vnetResourceGroup =
                         (case asi_VnetResourceGroup (aps_SubnetInfo providerSpec) of
                            Some g \<Rightarrow> g
                          | None \<Rightarrow> resourceGroupName);
                       dataDisks = asp_DataDisks (avp_StorageProfile (aps_Properties providerSpec))
                   in case (if dataDisks \<noteq> []
                            then getAzureDataDiskNames dataDisks vmName dataDiskSuffix
                            else Returns []) of
                        Panics p \<Rightarrow> (Panics p, d1, w1)
                      | Returns dataDiskNames \<Rightarrow>
                          (case call (Subnet_Get_called vnetResourceGroup vnetName subnetName)
                                     (Subnet_Get env vnetResourceGroup vnetName subnetName) w1 of
                             (Inl err, w2) \<Rightarrow>
                               (Returns (Inl (spi_OnARMAPIErrorFail env prometheusServiceSubnet err
                                                ''Subnet.Get failed for %s due to %s''
                                                [StrArg subnetName, ErrArg err])), d1, w2)
                           | (Inr subnet, w2) \<Rightarrow>
                               (Returns (Inr (\<lparr> l_vmName = vmName,
                                                l_resourceGroupName = resourceGroupName,
                                                l_vnetName = vnetName,
                                                l_vnetResourceGroup = vnetResourceGroup,
                                                l_subnetName = subnetName,
                                                l_nicName = nicName,
                                                l_diskName = diskName,
                                                l_dataDiskNames = dataDiskNames,
                                                l_machineClassName = mc_Name (req_MachineClass req) \<rparr>,
                                              subnet)), d1, w2)))))"

text \<open>Lines 475-517: the network interface is submitted, awaited and fetched.\<close>

definition createNIC ::
  "'s env \<Rightarrow> MachinePlugin \<Rightarrow> locals \<Rightarrow> Subnet \<Rightarrow> 's world \<Rightarrow> (error + Interface) outcome \<times> 's world" where
  "createNIC env d l subnet w =
     (let NICParameters = getNICParameters d (l_vmName l) subnet
      in case nic_Name NICParameters of
           None \<Rightarrow> (Panics NilPointerDereference, w)
         | Some name \<Rightarrow>
      (case call (Nic_CreateOrUpdate_called (l_resourceGroupName l) name NICParameters)
                 (Nic_CreateOrUpdate env (l_resourceGroupName l) name NICParameters) w of
         (Inl err, w1) \<Rightarrow>
           cleanupAndReturn env l
             (spi_OnARMAPIErrorFail env prometheusServiceNIC err
                ''NIC.CreateOrUpdate failed for %s'' [StrArg name]) w1
       | (Inr NICFuture, w1) \<Rightarrow>
      (case call (NICFuture_WaitForCompletionRef_called NICFuture)
                 (NICFuture_WaitForCompletionRef env NICFuture) w1 of
         (Some err, w2) \<Rightarrow>
           cleanupAndReturn env l
             (spi_OnARMAPIErrorFail env prometheusServiceNIC err
                ''NIC.WaitForCompletionRef failed for %s'' [StrArg name]) w2
       | (None, w2) \<Rightarrow>
      (case call (NICFuture_Result_called NICFuture) (NICFuture_Result env NICFuture) w2 of
         (Inl err, w3) \<Rightarrow> cleanupAndReturn env l err w3
       | (Inr NIC, w3) \<Rightarrow> (Returns (Inr NIC), w3)))))"

text \<open>Lines 519-592: the image and, for an image with a plan, the marketplace agreement.\<close>

definition resolveImage ::
  "'s env \<Rightarrow> MachinePlugin \<Rightarrow> locals \<Rightarrow> 's world
     \<Rightarrow> (error + VirtualMachineImage option) outcome \<times> 's world" where
  "resolveImage env d l w =
     (let imageRefClass = asp_ImageReference (avp_StorageProfile (aps_Properties (AzureProviderSpec d)))
      in if air_ID imageRefClass = ''''
         then
      (case getImageReference d of
         Panics p \<Rightarrow> (Panics p, w)
       | Returns imageReference \<Rightarrow>
      (case ir_Publisher imageReference of None \<Rightarrow> (Panics NilPointerDereference, w) | Some publisher \<Rightarrow>
      (case ir_Offer imageReference of None \<Rightarrow> (Panics NilPointerDereference, w) | Some offer \<Rightarrow>
      (case ir_Sku imageReference of None \<Rightarrow> (Panics NilPointerDereference, w) | Some sku \<Rightarrow>
      (case ir_Version imageReference of None \<Rightarrow> (Panics NilPointerDereference, w) | Some version \<Rightarrow>
      (case call (Images_Get_called (aps_Location (AzureProviderSpec d)) publisher offer sku version)
                 (Images_Get env (aps_Location (AzureProviderSpec d)) publisher offer sku version) w of
         (Inl err, w1) \<Rightarrow>
           cleanupAndReturn env l
             (spi_OnARMAPIErrorFail env prometheusServiceVM err
                ''VirtualMachineImagesclientutils.Get failed for %s'' [StrArg (l_machineClassName l)]) w1
       | (Inr vmImage, w1) \<Rightarrow>
      (case img_Plan vmImage of
         None \<Rightarrow> (Returns (Inr (Some vmImage)), w1)
       | Some plan \<Rightarrow>
      (case pp_Publisher plan of None \<Rightarrow> (Panics NilPointerDereference, w1) | Some planPublisher \<Rightarrow>
      (case pp_Product plan of None \<Rightarrow> (Panics NilPointerDereference, w1) | Some planProduct \<Rightarrow>
      (case pp_Name plan of None \<Rightarrow> (Panics NilPointerDereference, w1) | Some planName \<Rightarrow>
      (case call (Marketplace_Get_called planPublisher planProduct planName)
                 (Marketplace_Get env planPublisher planProduct planName) w1 of
         (Inl err, w2) \<Rightarrow>
           cleanupAndReturn env l
             (spi_OnARMAPIErrorFail env prometheusServiceVM err
                ''MarketplaceAgreementsclient.Get failed for %s'' [StrArg (l_machineClassName l)]) w2
       | (Inr agreement, w2) \<Rightarrow>
           (if agr_Accepted agreement = None \<or> agr_Accepted agreement = Some False
            then
              (let agreement1 = agreement \<lparr> agr_Accepted := Some True \<rparr>
               in case call (Marketplace_Create_called planPublisher planProduct planName agreement1)
                            (Marketplace_Create env planPublisher planProduct planName agreement1) w2 of
                    (Some err, w3) \<Rightarrow>
                      cleanupAndReturn env l
                        (spi_OnARMAPIErrorFail env prometheusServiceVM err
                           ''MarketplaceAgreementsclientutils.Create failed for %s''
                           [StrArg (l_machineClassName l)]) w3
                  | (None, w3) \<Rightarrow> (Returns (Inr (Some vmImage)), w3))
            else (Returns (Inr (Some vmImage)), w2)))))))))))))
         else (Returns (Inr None), w))"

text \<open>Lines 594-635: the virtual machine is submitted, awaited and fetched.\<close>

definition createVM ::
  "'s env \<Rightarrow> MachinePlugin \<Rightarrow> locals \<Rightarrow> VirtualMachineImage option \<Rightarrow> Interface \<Rightarrow> 's world
     \<Rightarrow> (error + VirtualMachine) outcome \<times> 's world" where
  "createVM env d l vmImageRef NIC w =
     (case nic_ID NIC of
        None \<Rightarrow> (Panics NilPointerDereference, w)
      | Some nicID \<Rightarrow>
     (case getVMParameters (base64_EncodeToString env) d (l_vmName l) vmImageRef nicID of
        Panics p \<Rightarrow> (Panics p, w)
      | Returns VMParameters \<Rightarrow>
     (case vm_Name VMParameters of
        None \<Rightarrow> (Panics NilPointerDereference, w)
      | Some name \<Rightarrow>
     (case call (VM_CreateOrUpdate_called (l_resourceGroupName l) name VMParameters)
                (VM_CreateOrUpdate env (l_resourceGroupName l) name VMParameters) w of
        (Inl err, w1) \<Rightarrow>
          cleanupAndReturn env l
            (spi_OnARMAPIErrorFail env prometheusServiceVM err
               ''GetVM().CreateOrUpdate failed for %s'' [StrArg name]) w1
      | (Inr VMFuture, w1) \<Rightarrow>
     (case call (VMFuture_WaitForCompletionRef_called VMFuture)
                (VMFuture_WaitForCompletionRef env VMFuture) w1 of
        (Some err, w2) \<Rightarrow>
          cleanupAndReturn env l
            (spi_OnARMAPIErrorFail env prometheusServiceVM err
               ''VMFuture.WaitForCompletionRef failed for %s'' [StrArg name]) w2
      | (None, w2) \<Rightarrow>
     (case call (VMFuture_Result_called VMFuture) (VMFuture_Result env VMFuture) w2 of
        (Inl err, w3) \<Rightarrow>
          cleanupAndReturn env l
            (spi_OnARMAPIErrorFail env prometheusServiceVM err
               ''VMFuture.Result failed for %s'' [StrArg name]) w3
      | (Inr VM, w3) \<Rightarrow> (Returns (Inr VM), w3)))))))"

text \<open>\<^verbatim>\<open>createVMNicDisk\<close>: the four parts in sequence; the receiver keeps the decoded spec.\<close>

definition createVMNicDisk ::
  "'s env \<Rightarrow> MachinePlugin \<Rightarrow> CreateMachineRequest \<Rightarrow> 's world
     \<Rightarrow> (error + VirtualMachine) outcome \<times> MachinePlugin \<times> 's world" where
  "createVMNicDisk env d req w =
     (case prepare env d req w of
        (Panics p, d1, w2) \<Rightarrow> (Panics p, d1, w2)
      | (Returns (Inl err), d1, w2) \<Rightarrow> (Returns (Inl err), d1, w2)
      | (Returns (Inr (l, subnet)), d1, w2) \<Rightarrow>
     (case createNIC env d1 l subnet w2 of
        (Panics p, w3) \<Rightarrow> (Panics p, d1, w3)
      | (Returns (Inl err), w3) \<Rightarrow> (Returns (Inl err), d1, w3)
      | (Returns (Inr NIC), w3) \<Rightarrow>
     (case resolveImage env d1 l w3 of
        (Panics p, w4) \<Rightarrow> (Panics p, d1, w4)
      | (Returns (Inl err), w4) \<Rightarrow> (Returns (Inl err), d1, w4)
      | (Returns (Inr vmImageRef), w4) \<Rightarrow>
     (case createVM env d1 l vmImageRef NIC w4 of
        (r, w5) \<Rightarrow> (r, d1, w5)))))"

section \<open>Failing creation steps\<close>

text \<open>
  \<open>stepFails env d l subnet w err wfail\<close>: started in the world \<open>w\<close> reached once the subnet is
  resolved, the creation sequence fails at one of its nine backend steps, in the world
  \<open>wfail\<close>, and \<open>err\<close> is the error of the \<^verbatim>\<open>return nil, ...\<close> of that step: the step's own
  error, passed through \<^verbatim>\<open>spi.OnARMAPIErrorFail\<close> everywhere but at the NIC fetch.
\<close>

inductive stepFails ::
  "'s env \<Rightarrow> MachinePlugin \<Rightarrow> locals \<Rightarrow> Subnet \<Rightarrow> 's world \<Rightarrow> error \<Rightarrow> 's world \<Rightarrow> bool"
  for env :: "'s env" and d :: MachinePlugin and l :: locals and subnet :: Subnet and w :: "'s world"
where
  NIC_submit:
    "name = dependencyNameFromVMName (l_vmName l) nicSuffix \<Longrightarrow>
     NICParameters = getNICParameters d (l_vmName l) subnet \<Longrightarrow>
     call (Nic_CreateOrUpdate_called (l_resourceGroupName l) name NICParameters)
          (Nic_CreateOrUpdate env (l_resourceGroupName l) name NICParameters) w = (Inl e, wfail) \<Longrightarrow>
     stepFails env d l subnet w
       (spi_OnARMAPIErrorFail env prometheusServiceNIC e ''NIC.CreateOrUpdate failed for %s'' [StrArg name]) wfail"
| NIC_await:
    "name = dependencyNameFromVMName (l_vmName l) nicSuffix \<Longrightarrow>
     NICParameters = getNICParameters d (l_vmName l) subnet \<Longrightarrow>
     call (Nic_CreateOrUpdate_called (l_resourceGroupName l) name NICParameters)
          (Nic_CreateOrUpdate env (l_resourceGroupName l) name NICParameters) w = (Inr NICFuture, w1) \<Longrightarrow>
     call (NICFuture_WaitForCompletionRef_called NICFuture)
          (NICFuture_WaitForCompletionRef env NICFuture) w1 = (Some e, wfail) \<Longrightarrow>
     stepFails env d l subnet w
       (spi_OnARMAPIErrorFail env prometheusServiceNIC e ''NIC.WaitForCompletionRef failed for %s'' [StrArg name]) wfail"
| NIC_fetch:
    "name = dependencyNameFromVMName (l_vmName l) nicSuffix \<Longrightarrow>
     NICParameters = getNICParameters d (l_vmName l) subnet \<Longrightarrow>
     call (Nic_CreateOrUpdate_called (l_resourceGroupName l) name NICParameters)
          (Nic_CreateOrUpdate env (l_resourceGroupName l) name NICParameters) w = (Inr NICFuture, w1) \<Longrightarrow>
     call (NICFuture_WaitForCompletionRef_called NICFuture)
          (NICFuture_WaitForCompletionRef env NICFuture) w1 = (None, w2) \<Longrightarrow>
     call (NICFuture_Result_called NICFuture) (NICFuture_Result env NICFuture) w2 = (Inl e, wfail) \<Longrightarrow>
     stepFails env d l subnet w e wfail"
| image_fetch:
    "createNIC env d l subnet w = (Returns (Inr NIC), w3) \<Longrightarrow>
     air_ID (asp_ImageReference (avp_StorageProfile (aps_Properties (AzureProviderSpec d)))) = '''' \<Longrightarrow>
     getImageReference d = Returns \<lparr> ir_ID = i, ir_Publisher = Some publisher, ir_Offer = Some offer,
                                     ir_Sku = Some sku, ir_Version = Some version \<rparr> \<Longrightarrow>
     call (Images_Get_called (aps_Location (AzureProviderSpec d)) publisher offer sku version)
          (Images_Get env (aps_Location (AzureProviderSpec d)) publisher offer sku version) w3 = (Inl e, wfail) \<Longrightarrow>
     stepFails env d l subnet w
       (spi_OnARMAPIErrorFail env prometheusServiceVM e
          ''VirtualMachineImagesclientutils.Get failed for %s'' [StrArg (l_machineClassName l)]) wfail"
| agreement_fetch:
    "createNIC env d l subnet w = (Returns (Inr NIC), w3) \<Longrightarrow>
     air_ID (asp_ImageReference (avp_StorageProfile (aps_Properties (AzureProviderSpec d)))) = '''' \<Longrightarrow>
     getImageReference d = Returns \<lparr> ir_ID = i, ir_Publisher = Some publisher, ir_Offer = Some offer,
                                     ir_Sku = Some sku, ir_Version = Some version \<rparr> \<Longrightarrow>
     call (Images_Get_called (aps_Location (AzureProviderSpec d)) publisher offer sku version)
          (Images_Get env (aps_Location (AzureProviderSpec d)) publisher offer sku version) w3
       = (Inr vmImage, w4) \<Longrightarrow>
     img_Plan vmImage = Some \<lparr> pp_Publisher = Some planPublisher, pp_Name = Some planName,
                               pp_Product = Some planProduct \<rparr> \<Longrightarrow>
     call (Marketplace_Get_called planPublisher planProduct planName)
          (Marketplace_Get env planPublisher planProduct planName) w4 = (Inl e, wfail) \<Longrightarrow>
     stepFails env d l subnet w
       (spi_OnARMAPIErrorFail env prometheusServiceVM e
          ''MarketplaceAgreementsclient.Get failed for %s'' [StrArg (l_machineClassName l)]) wfail"
| agreement_accept:
    "createNIC env d l subnet w = (Returns (Inr NIC), w3) \<Longrightarrow>
     air_ID (asp_ImageReference (avp_StorageProfile (aps_Properties (AzureProviderSpec d)))) = '''' \<Longrightarrow>
     getImageReference d = Returns \<lparr> ir_ID = i, ir_Publisher = Some publisher, ir_Offer = Some offer,
                                     ir_Sku = Some sku, ir_Version = Some version \<rparr> \<Longrightarrow>
     call (Images_Get_called (aps_Location (AzureProviderSpec d)) publisher offer sku version)
          (Images_Get env (aps_Location (AzureProviderSpec d)) publisher offer sku version) w3
       = (Inr vmImage, w4) \<Longrightarrow>
     img_Plan vmImage = Some \<lparr> pp_Publisher = Some planPublisher, pp_Name = Some planName,
                               pp_Product = Some planProduct \<rparr> \<Longrightarrow>
     call (Marketplace_Get_called planPublisher planProduct planName)
          (Marketplace_Get env planPublisher planProduct planName) w4 = (Inr agreement, w5) \<Longrightarrow>
     agr_Accepted agreement \<noteq> Some True \<Longrightarrow>
     agreement1 = agreement \<lparr> agr_Accepted := Some True \<rparr> \<Longrightarrow>
     call (Marketplace_Create_called planPublisher planProduct planName agreement1)
          (Marketplace_Create env planPublisher planProduct planName agreement1) w5 = (Some e, wfail) \<Longrightarrow>
     stepFails env d l subnet w
       (spi_OnARMAPIErrorFail env prometheusServiceVM e
          ''MarketplaceAgreementsclientutils.Create failed for %s'' [StrArg (l_machineClassName l)]) wfail"
| VM_submit:
    "createNIC env d l subnet w = (Returns (Inr NIC), w3) \<Longrightarrow>
     resolveImage env d l w3 = (Returns (Inr vmImageRef), w4) \<Longrightarrow>
     nic_ID NIC = Some nicID \<Longrightarrow>
     getVMParameters (base64_EncodeToString env) d (l_vmName l) vmImageRef nicID = Returns VMParameters \<Longrightarrow>
     call (VM_CreateOrUpdate_called (l_resourceGroupName l) (l_vmName l) VMParameters)
          (VM_CreateOrUpdate env (l_resourceGroupName l) (l_vmName l) VMParameters) w4 = (Inl e, wfail) \<Longrightarrow>
     stepFails env d l subnet w
       (spi_OnARMAPIErrorFail env prometheusServiceVM e
          ''GetVM().CreateOrUpdate failed for %s'' [StrArg (l_vmName l)]) wfail"
| VM_await:
    "createNIC env d l subnet w = (Returns (Inr NIC), w3) \<Longrightarrow>
     resolveImage env d l w3 = (Returns (Inr vmImageRef), w4) \<Longrightarrow>
     nic_ID NIC = Some nicID \<Longrightarrow>
     getVMParameters (base64_EncodeToString env) d (l_vmName l) vmImageRef nicID = Returns VMParameters \<Longrightarrow>
     call (VM_CreateOrUpdate_called (l_resourceGroupName l) (l_vmName l) VMParameters)
          (VM_CreateOrUpdate env (l_resourceGroupName l) (l_vmName l) VMParameters) w4 = (Inr VMFuture, w5) \<Longrightarrow>
     call (VMFuture_WaitForCompletionRef_called VMFuture)
          (VMFuture_WaitForCompletionRef env VMFuture) w5 = (Some e, wfail) \<Longrightarrow>
     stepFails env d l subnet w
       (spi_OnARMAPIErrorFail env prometheusServiceVM e
          ''VMFuture.WaitForCompletionRef failed for %s'' [StrArg (l_vmName l)]) wfail"
| VM_fetch:
    "createNIC env d l subnet w = (Returns (Inr NIC), w3) \<Longrightarrow>
     resolveImage env d l w3 = (Returns (Inr vmImageRef), w4) \<Longrightarrow>
     nic_ID NIC = Some nicID \<Longrightarrow>
     getVMParameters (base64_EncodeToString env) d (l_vmName l) vmImageRef nicID = Returns VMParameters \<Longrightarrow>
     call (VM_CreateOrUpdate_called (l_resourceGroupName l) (l_vmName l) VMParameters)
          (VM_CreateOrUpdate env (l_resourceGroupName l) (l_vmName l) VMParameters) w4 = (Inr VMFuture, w5) \<Longrightarrow>
     call (VMFuture_WaitForCompletionRef_called VMFuture)
          (VMFuture_WaitForCompletionRef env VMFuture) w5 = (None, w6) \<Longrightarrow>
     call (VMFuture_Result_called VMFuture) (VMFuture_Result env VMFuture) w6 = (Inl e, wfail) \<Longrightarrow>
     stepFails env d l subnet w
       (spi_OnARMAPIErrorFail env prometheusServiceVM e
          ''VMFuture.Result failed for %s'' [StrArg (l_vmName l)]) wfail"

section \<open>A concrete backend\<close>

text \<open>
  The scenario of the spec: machine \<open>vm-1\<close>, subnet \<open>subnet-a\<close>, one data disk without name
  and LUN of 50 GiB. The backend state counts the operations it has served; every
  operation succeeds, no virtual machine exists yet, the NIC is unattached. The closures
  handed to \<open>spi_RunInParallel\<close> run one after the other and their errors are joined.
\<close>

definition demoDisk :: AzureDataDisk where
  "demoDisk = \<lparr> add_Name = '''', add_Lun = None, add_Caching = '''',
                add_StorageAccountType = ''Standard_LRS'', add_DiskSizeGB = 50 \<rparr>"

definition demoProperties :: AzureVirtualMachineProperties where
  "demoProperties =
     \<lparr> avp_HardwareProfile = \<lparr> ahp_VMSize = ''Standard_DS2_v2'' \<rparr>,
       avp_StorageProfile =
         \<lparr> asp_ImageReference = \<lparr> air_ID = '''', air_URN = Some ''Canonical:UbuntuServer:18.04-LTS:latest'' \<rparr>,
           asp_OsDisk = \<lparr> aod_Caching = ''None'',
                          aod_ManagedDisk = \<lparr> amd_StorageAccountType = ''Standard_LRS'' \<rparr>,
                          aod_DiskSizeGB = 50, aod_CreateOption = ''FromImage'' \<rparr>,
           asp_DataDisks = [demoDisk] \<rparr>,
       avp_OsProfile =
         \<lparr> aop_AdminUsername = ''core'',
           aop_LinuxConfiguration =
             \<lparr> alc_DisablePasswordAuthentication = True,
               alc_SSH = \<lparr> assh_PublicKeys = \<lparr> apk_Path = ''/home/core/.ssh/authorized_keys'',
                                               apk_KeyData = ''ssh-rsa'' \<rparr> \<rparr> \<rparr> \<rparr>,
       avp_NetworkProfile = \<lparr> anp_AcceleratedNetworking = None \<rparr>,
       avp_AvailabilitySet = Some \<lparr> asr_ID = ''avset-1'' \<rparr>,
       avp_IdentityID = None,
       avp_Zone = Some 2 \<rparr>"

definition demoSpec :: AzureProviderSpec where
  "demoSpec =
     \<lparr> aps_Location = ''westeurope'',
       aps_Tags = Map.empty,
       aps_Properties = demoProperties,
       aps_ResourceGroup = ''rg-1'',
       aps_SubnetInfo = \<lparr> asi_VnetName = ''vnet-a'', asi_VnetResourceGroup = None,
                          asi_SubnetName = ''subnet-a'' \<rparr> \<rparr>"

definition demoPlugin :: MachinePlugin where
  "demoPlugin = \<lparr> AzureProviderSpec = demoSpec, Secret = Map.empty \<rparr>"

definition demoRequest :: CreateMachineRequest where
  "demoRequest = \<lparr> req_MachineName = ''vm-1'',
                   req_MachineClass = \<lparr> mc_Name = ''class-1'', mc_ProviderSpecRaw = '''' \<rparr>,
                   req_Secret = Map.empty \<rparr>"

definition demoLocals :: locals where
  "demoLocals = \<lparr> l_vmName = ''vm-1'', l_resourceGroupName = ''rg-1'', l_vnetName = ''vnet-a'',
                  l_vnetResourceGroup = ''rg-1'', l_subnetName = ''subnet-a'',
                  l_nicName = ''vm-1-nic'', l_diskName = ''vm-1-os-disk'',
                  l_dataDiskNames = [''vm-1-0-data-disk''], l_machineClassName = ''class-1'' \<rparr>"

definition demoSubnet :: Subnet where
  "demoSubnet = \<lparr> subnet_ID = Some ''subnet-a-id'', subnet_Name = Some ''subnet-a'' \<rparr>"

definition notFoundError :: error where
  "notFoundError = DetailedError 404 ''ResourceNotFound''"

definition backendFailure :: error where
  "backendFailure = DetailedError 500 ''InternalServerError''"

definition teardownFailure :: error where
  "teardownFailure = DetailedError 503 ''ServiceUnavailable''"

fun errorText :: "error \<Rightarrow> string" where
  "errorText (DetailedError code msg) = msg"
| "errorText (Errorf msg) = msg"

fun runAll :: "('w \<Rightarrow> error option \<times> 'w) list \<Rightarrow> 'w \<Rightarrow> error list \<times> 'w" where
  "runAll [] w = ([], w)"
| "runAll (f # fs) w =
     (case f w of
        (r, w1) \<Rightarrow>
          (case runAll fs w1 of
             (errs, w2) \<Rightarrow> ((case r of None \<Rightarrow> errs | Some e \<Rightarrow> e # errs), w2)))"

fun joinLines :: "string list \<Rightarrow> string" where
  "joinLines [] = []"
| "joinLines [x] = x"
| "joinLines (x # y # zs) = x @ [CHR 0x0A] @ joinLines (y # zs)"

definition runInOrder :: "('w \<Rightarrow> error option \<times> 'w) list \<Rightarrow> 'w \<Rightarrow> error option \<times> 'w" where
  "runInOrder fs w =
     (case runAll fs w of
        (errs, w') \<Rightarrow> ((if errs = [] then None else Some (Errorf (joinLines (map errorText errs)))), w'))"

definition demoNIC :: Interface where
  "demoNIC = \<lparr> nic_ID = Some ''nic-id-1'', nic_Name = Some ''vm-1-nic'', nic_Location = Some ''westeurope'',
               nic_Properties = \<lparr> ifp_IPConfigurations = None, ifp_EnableIPForwarding = Some True,
                                   ifp_EnableAcceleratedNetworking = None \<rparr>,
               nic_Tags = Map.empty \<rparr>"

definition demoVM :: VirtualMachine where
  "demoVM =
     \<lparr> vm_Name = Some ''vm-1'', vm_Plan = None, vm_Location = Some ''westeurope'',
       vm_Properties =
         \<lparr> vmp_HardwareProfile = \<lparr> hp_VMSize = ''Standard_DS2_v2'' \<rparr>,
           vmp_StorageProfile =
             \<lparr> sp_ImageReference = \<lparr> ir_ID = None, ir_Publisher = None, ir_Offer = None,
                                      ir_Sku = None, ir_Version = None \<rparr>,
               sp_OsDisk = \<lparr> od_Name = Some ''vm-1-os-disk'', od_Caching = ''None'',
                             od_ManagedDisk = \<lparr> mdp_StorageAccountType = ''Standard_LRS'' \<rparr>,
                             od_DiskSizeGB = Some 50, od_CreateOption = ''FromImage'' \<rparr>,
               sp_DataDisks = None \<rparr>,
           vmp_OsProfile =
             \<lparr> op_ComputerName = Some ''vm-1'', op_AdminUsername = None, op_CustomData = None,
               op_LinuxConfiguration = \<lparr> lc_DisablePasswordAuthentication = None,
                                         lc_SSH = \<lparr> ssh_PublicKeys = None \<rparr> \<rparr> \<rparr>,
           vmp_NetworkProfile = \<lparr> np_NetworkInterfaces = None \<rparr>,
           vmp_AvailabilitySet = None \<rparr>,
       vm_Zones = Some [''2''], vm_Identity = None, vm_Tags = Map.empty \<rparr>"

definition demoEnv :: "nat env" where
  "demoEnv =
     \<lparr> decodeProviderSpecAndSecret = (\<lambda>machineClass secret. Inr demoSpec),
       SPI_Setup = (\<lambda>secret s. (None, Suc s)),
       Subnet_Get = (\<lambda>rg vnet name s. (Inr demoSubnet, Suc s)),
       Nic_CreateOrUpdate = (\<lambda>rg name params s. (Inr s, Suc s)),
       NICFuture_WaitForCompletionRef = (\<lambda>fut s. (None, Suc s)),
       NICFuture_Result = (\<lambda>fut s. (Inr demoNIC, Suc s)),
       Images_Get = (\<lambda>location publisher offer sku version s.
                       (Inr \<lparr> img_Plan = Some \<lparr> pp_Publisher = Some publisher, pp_Name = Some sku,
                                                 pp_Product = Some offer \<rparr> \<rparr>, Suc s)),
       Marketplace_Get = (\<lambda>publisher product name s.
                            (Inr \<lparr> agr_Accepted = None, agr_Plan = Some name \<rparr>, Suc s)),
       Marketplace_Create = (\<lambda>publisher product name agreement s. (None, Suc s)),
       VM_CreateOrUpdate = (\<lambda>rg name params s. (Inr s, Suc s)),
       VMFuture_WaitForCompletionRef = (\<lambda>fut s. (None, Suc s)),
       VMFuture_Result = (\<lambda>fut s. (Inr demoVM, Suc s)),
       VM_Get = (\<lambda>rg name s. (Inl notFoundError, Suc s)),
       spi_WaitForDataDiskDetachment = (\<lambda>rg vm s. Suc s),
       spi_DeleteVM = (\<lambda>rg name s. (None, Suc s)),
       spi_FetchAttachedVMfromNIC = (\<lambda>rg name s. (Inr '''', Suc s)),
       spi_DeleteNIC = (\<lambda>rg name s. (None, Suc s)),
       spi_DiskDeleter = (\<lambda>rg name s. (None, Suc s)),
       spi_RunInParallel = runInOrder,
       spi_NotFound = (\<lambda>err. case err of DetailedError code msg \<Rightarrow> code = 404 | Errorf msg \<Rightarrow> False),
       spi_OnARMAPIErrorFail = (\<lambda>service err format args. err),
       unicode_ToLower = (\<lambda>s. s),
       base64_EncodeToString = (\<lambda>s. s) \<rparr>"

definition world0 :: "nat world" where
  "world0 = \<lparr> backend = 0, trace = [] \<rparr>"

text \<open>Variations of the concrete backend and of the concrete spec.\<close>

definition failingEnv :: "nat env" where
  "failingEnv = demoEnv \<lparr> Nic_CreateOrUpdate := (\<lambda>rg name params s. (Inl backendFailure, Suc s)),
                          VM_Get := (\<lambda>rg name s. (Inl teardownFailure, Suc s)) \<rparr>"

definition worldAfterSubnet :: "nat world" where
  "worldAfterSubnet = \<lparr> backend = 2,
                        trace = [Setup_called, Subnet_Get_called ''rg-1'' ''vnet-a'' ''subnet-a''] \<rparr>"


definition attachedEnv :: "nat env" where
  "attachedEnv = demoEnv \<lparr> spi_FetchAttachedVMfromNIC := (\<lambda>rg name s. (Inr ''vm-2'', Suc s)) \<rparr>"

definition nicGoneEnv :: "nat env" where
  "nicGoneEnv = demoEnv \<lparr> spi_FetchAttachedVMfromNIC := (\<lambda>rg name s. (Inl notFoundError, Suc s)) \<rparr>"

definition demoDisks :: "AzureDataDisk list" where
  "demoDisks = [demoDisk,
                \<lparr> add_Name = ''logs'', add_Lun = Some 7, add_Caching = ''ReadOnly'',
                  add_StorageAccountType = ''Premium_LRS'', add_DiskSizeGB = 100 \<rparr>,
                demoDisk]"


definition specWithImage :: "AzureImageReference \<Rightarrow> AzureProviderSpec" where
  "specWithImage imageRef =
     demoSpec \<lparr> aps_Properties := demoProperties
       \<lparr> avp_StorageProfile := (avp_StorageProfile demoProperties) \<lparr> asp_ImageReference := imageRef \<rparr> \<rparr> \<rparr>"




definition shortUrnImage :: AzureImageReference where
  "shortUrnImage = \<lparr> air_ID = '''', air_URN = Some ''Canonical:UbuntuServer'' \<rparr>"

definition shortUrnPlugin :: MachinePlugin where
  "shortUrnPlugin = demoPlugin \<lparr> AzureProviderSpec := specWithImage shortUrnImage \<rparr>"

definition shortUrnEnv :: "nat env" where
  "shortUrnEnv = demoEnv \<lparr> decodeProviderSpecAndSecret := (\<lambda>machineClass secret. Inr (specWithImage shortUrnImage)) \<rparr>"

definition noUrnPlugin :: MachinePlugin where
  "noUrnPlugin = demoPlugin \<lparr> AzureProviderSpec := specWithImage \<lparr> air_ID = '''', air_URN = None \<rparr> \<rparr>"


definition worldAfterNIC :: "MachinePlugin \<Rightarrow> nat world" where
  "worldAfterNIC d =
     \<lparr> backend = 5,
       trace = [Setup_called, Subnet_Get_called ''rg-1'' ''vnet-a'' ''subnet-a'',
                Nic_CreateOrUpdate_called ''rg-1'' ''vm-1-nic'' (getNICParameters d ''vm-1'' demoSubnet),
                NICFuture_WaitForCompletionRef_called 2, NICFuture_Result_called 2] \<rparr>"

definition upperRequest :: CreateMachineRequest where
  "upperRequest = demoRequest \<lparr> req_MachineName := ''VM-1'' \<rparr>"

section \<open>Auxiliary facts\<close>

lemma getAzureDataDiskPrefix_Some:
  "getAzureDataDiskPrefix name (Some l) =
     Returns ((if name \<noteq> '''' then name @ ''-'' else '''') @ Itoa (sint l))"
  by (simp add: getAzureDataDiskPrefix_def)

lemma generateDataDisk_Returns:
  "generateDataDisk vmName i a =
     Returns \<lparr> dd_Lun = Some (case add_Lun a of Some l \<Rightarrow> l | None \<Rightarrow> word_of_nat i),
               dd_Name = Some (vmName @ ''-'' @ (if add_Name a \<noteq> '''' then add_Name a @ ''-'' else '''')
                                @ Itoa (sint (case add_Lun a of Some l \<Rightarrow> l | None \<Rightarrow> word_of_nat i))
                                @ ''-data-disk''),
               dd_Caching = (if add_Caching a \<noteq> '''' then add_Caching a else ''None''),
               dd_ManagedDisk = Some \<lparr> mdp_StorageAccountType = add_StorageAccountType a \<rparr>,
               dd_DiskSizeGB = Some (add_DiskSizeGB a),
               dd_CreateOption = ''Empty'' \<rparr>"
  by (cases "add_Lun a")
     (simp_all add: generateDataDisk_def getAzureDataDiskPrefix_Some
        dependencyNameFromVMNameAndDependency_def dataDiskSuffix_def CachingTypesNone_def
        DiskCreateOptionTypesEmpty_def)

lemma generateDataDisks_from_Returns:
  "\<exists>out. generateDataDisks_from vmName i ds = Returns out \<and> length out = length ds \<and>
         (\<forall>k < length ds. generateDataDisk vmName (i + k) (ds ! k) = Returns (out ! k))"
proof (induction ds arbitrary: i)
  case Nil
  show ?case by simp
next
  case (Cons a ds)
  obtain d where d: "generateDataDisk vmName i a = Returns d"
    using generateDataDisk_Returns by blast
  obtain out where out: "generateDataDisks_from vmName (Suc i) ds = Returns out"
    "length out = length ds"
    "\<forall>k < length ds. generateDataDisk vmName (Suc i + k) (ds ! k) = Returns (out ! k)"
    using Cons.IH [of "Suc i"] by blast
  have "\<forall>k < length (a # ds). generateDataDisk vmName (i + k) ((a # ds) ! k) = Returns ((d # out) ! k)"
  proof (intro allI impI)
    fix k assume "k < length (a # ds)"
    then show "generateDataDisk vmName (i + k) ((a # ds) ! k) = Returns ((d # out) ! k)"
      using d out(3) by (cases k) auto
  qed
  then show ?case using d out(1,2) by simp
qed


lemma getNICParameters_name:
  "nic_Name (getNICParameters d vmName subnet) = Some (dependencyNameFromVMName vmName nicSuffix)"
  by (simp add: getNICParameters_def Let_def)







lemma Split_not_Nil: "Split s c \<noteq> []"
  by (induction s) (auto split: list.splits)

lemma length_Split: "length (Split s c) = Suc (count_list s c)"
  by (induction s) (auto simp: Split_not_Nil split: list.splits)


lemma getImageReference_URN:
  assumes "air_ID (asp_ImageReference (avp_StorageProfile (aps_Properties (AzureProviderSpec d)))) = ''''"
    and "air_URN (asp_ImageReference (avp_StorageProfile (aps_Properties (AzureProviderSpec d)))) = Some urn"
  shows "getImageReference d =
     (if 3 \<le> count_list urn (CHR '':'')
      then Returns \<lparr> ir_ID = None, ir_Publisher = Some (Split urn (CHR '':'') ! 0),
                     ir_Offer = Some (Split urn (CHR '':'') ! 1), ir_Sku = Some (Split urn (CHR '':'') ! 2),
                     ir_Version = Some (Split urn (CHR '':'') ! 3) \<rparr>
      else Panics (IndexOutOfRange (Suc (count_list urn (CHR '':''))) (Suc (count_list urn (CHR '':'')))))"
  using assms
  by (auto simp: getImageReference_def index_def length_Split Split_not_Nil Let_def)

lemma prepare_cong:
  assumes "ToLower (unicode_ToLower env) (req_MachineName req1) =
           ToLower (unicode_ToLower env) (req_MachineName req2)"
    and "req_MachineClass req1 = req_MachineClass req2"
    and "req_Secret req1 = req_Secret req2"
  shows "prepare env d req1 w = prepare env d req2 w"
  by (simp only: prepare_def assms)

lemma names_from_Returns:
  "\<exists>names. getAzureDataDiskNames_from i ds vmname suffix = Returns names \<and> length names = length ds"
proof (induction ds arbitrary: i)
  case Nil
  show ?case by simp
next
  case (Cons a ds)
  obtain names where "getAzureDataDiskNames_from (Suc i) ds vmname suffix = Returns names"
    "length names = length ds"
    using Cons.IH [of "Suc i"] by blast
  then show ?case
    by (cases "add_Lun a") (simp_all add: getAzureDataDiskPrefix_Some)
qed

lemma Itoa_0: "Itoa 0 = ''0''"
  by (simp add: Itoa_def natDigits.simps)

lemma demo_names: "getAzureDataDiskNames [demoDisk] ''vm-1'' dataDiskSuffix = Returns [''vm-1-0-data-disk'']"
  by (simp add: getAzureDataDiskNames_def demoDisk_def getAzureDataDiskPrefix_Some Itoa_0
        dependencyNameFromVMNameAndDependency_def dataDiskSuffix_def)

lemma ToLower_vm1: "ToLower u ''vm-1'' = ''vm-1''"
  by (simp add: ToLower_def isASCII_def toLowerByte_def)


lemma Itoa_2: "Itoa 2 = ''2''"
  by (simp add: Itoa_def natDigits.simps)

lemma Itoa_7: "Itoa 7 = ''7''"
  by (simp add: Itoa_def natDigits.simps)

lemma demo_split:
  "Split ''Canonical:UbuntuServer:18.04-LTS:latest'' (CHR '':'') =
     [''Canonical'', ''UbuntuServer'', ''18.04-LTS'', ''latest'']"
  by simp

lemma demo_imageReference:
  "getImageReference demoPlugin =
     Returns \<lparr> ir_ID = None, ir_Publisher = Some ''Canonical'', ir_Offer = Some ''UbuntuServer'',
               ir_Sku = Some ''18.04-LTS'', ir_Version = Some ''latest'' \<rparr>"
  by (simp add: getImageReference_def demoPlugin_def demoSpec_def demoProperties_def index_def)

lemma sint_index: "i < 2 ^ 31 \<Longrightarrow> sint (word_of_nat i :: int32) = int i"
  by (simp add: signed_of_nat signed_take_bit_int_eq_self)

lemma demo_dataDisks:
  "generateDataDisks ''vm-1'' [demoDisk] =
     Returns [\<lparr> dd_Lun = Some 0, dd_Name = Some ''vm-1-0-data-disk'', dd_Caching = ''None'',
                dd_ManagedDisk = Some \<lparr> mdp_StorageAccountType = ''Standard_LRS'' \<rparr>,
                dd_DiskSizeGB = Some 50, dd_CreateOption = ''Empty'' \<rparr>]"
  by (simp add: generateDataDisks_def generateDataDisk_Returns demoDisk_def Itoa_0)

lemma ToLower_VM1: "ToLower u ''VM-1'' = ''vm-1''"
  by code_simp

lemma prepare_with_image:
  "prepare (demoEnv \<lparr> decodeProviderSpecAndSecret := (\<lambda>machineClass secret. Inr (specWithImage imageRef)) \<rparr>)
           demoPlugin demoRequest world0 =
     (Returns (Inr (demoLocals, demoSubnet)),
      demoPlugin \<lparr> AzureProviderSpec := specWithImage imageRef \<rparr>, worldAfterSubnet)"
  by (simp add: prepare_def demoEnv_def demoRequest_def specWithImage_def demoSpec_def demoProperties_def
        demoPlugin_def world0_def worldAfterSubnet_def demoLocals_def call_def ToLower_vm1 demo_names
        dependencyNameFromVMName_def nicSuffix_def diskSuffix_def Let_def)

lemma createNIC_demo:
  "Nic_CreateOrUpdate env = Nic_CreateOrUpdate demoEnv \<Longrightarrow>
   NICFuture_WaitForCompletionRef env = NICFuture_WaitForCompletionRef demoEnv \<Longrightarrow>
   NICFuture_Result env = NICFuture_Result demoEnv \<Longrightarrow>
   createNIC env d demoLocals demoSubnet worldAfterSubnet = (Returns (Inr demoNIC), worldAfterNIC d)"
  by (simp add: createNIC_def getNICParameters_name Let_def demoLocals_def call_def demoEnv_def
        worldAfterSubnet_def worldAfterNIC_def dependencyNameFromVMName_def nicSuffix_def)

section \<open>The claims\<close>

subsection \<open>Claim C1\<close>



subsection \<open>Claim C2\<close>

text \<open>
  Claim C2, as the code has it. For the machine name \<open>vm-1\<close> and one data disk without name
  and LUN, of 50 GiB, the derived NIC name is \<open>vm-1-nic\<close>, the disk gets LUN 0, and the
  derived data-disk name is \<open>vm-1-0-data-disk\<close>: the machine name comes first, then the
  disk's prefix, then the suffix.
\<close>

theorem happy_path_derived_names:
  "ToLower u ''vm-1'' = ''vm-1'' \<and>
   dependencyNameFromVMName ''vm-1'' nicSuffix = ''vm-1-nic'' \<and>
   getAzureDataDiskNames [demoDisk] ''vm-1'' dataDiskSuffix = Returns [''vm-1-0-data-disk''] \<and>
   generateDataDisks ''vm-1'' [demoDisk] =
     Returns [\<lparr> dd_Lun = Some 0, dd_Name = Some ''vm-1-0-data-disk'', dd_Caching = ''None'',
                dd_ManagedDisk = Some \<lparr> mdp_StorageAccountType = ''Standard_LRS'' \<rparr>,
                dd_DiskSizeGB = Some 50, dd_CreateOption = ''Empty'' \<rparr>]"
  by (simp add: ToLower_vm1 demo_names demo_dataDisks dependencyNameFromVMName_def nicSuffix_def)

text \<open>The name \<open>0-vm-1-data-disk\<close> of the scenario is not the derived one.\<close>

theorem happy_path_derived_names_counterexample:
  "getAzureDataDiskNames [demoDisk] ''vm-1'' dataDiskSuffix \<noteq> Returns [''0-vm-1-data-disk'']"
  by (simp add: demo_names)

subsection \<open>Claim C3\<close>

text \<open>
  Claim C3. \<^verbatim>\<open>generateDataDisks\<close> returns one disk per descriptor, in order, and never
  panics. At position \<open>i\<close> the LUN is the descriptor's LUN when it has one and \<^verbatim>\<open>int32(i)\<close>
  otherwise, which reads as the number \<open>i\<close> for every position below \<open>2^31\<close>; the caching
  mode is the descriptor's when it is non-empty and \<open>None\<close> otherwise; size and storage
  account type are the descriptor's; the create option is \<open>Empty\<close>. No descriptor gives no
  disk.
\<close>

theorem generateDataDisks_descriptors:
  "generateDataDisks vmName [] = Returns [] \<and>
   (\<exists>dataDisks. generateDataDisks vmName azureDataDisks = Returns dataDisks \<and>
       length dataDisks = length azureDataDisks \<and>
       (\<forall>i < length azureDataDisks.
          dd_Lun (dataDisks ! i) =
            Some (case add_Lun (azureDataDisks ! i) of Some l \<Rightarrow> l | None \<Rightarrow> word_of_nat i) \<and>
          (add_Lun (azureDataDisks ! i) = None \<longrightarrow> i < 2 ^ 31 \<longrightarrow>
             map_option sint (dd_Lun (dataDisks ! i)) = Some (int i)) \<and>
          dd_Caching (dataDisks ! i) =
            (if add_Caching (azureDataDisks ! i) \<noteq> '''' then add_Caching (azureDataDisks ! i) else ''None'') \<and>
          dd_DiskSizeGB (dataDisks ! i) = Some (add_DiskSizeGB (azureDataDisks ! i)) \<and>
          dd_ManagedDisk (dataDisks ! i) =
            Some \<lparr> mdp_StorageAccountType = add_StorageAccountType (azureDataDisks ! i) \<rparr> \<and>
          dd_CreateOption (dataDisks ! i) = ''Empty''))"
proof -
  obtain out where out: "generateDataDisks_from vmName 0 azureDataDisks = Returns out"
    "length out = length azureDataDisks"
    "\<forall>k < length azureDataDisks. generateDataDisk vmName (0 + k) (azureDataDisks ! k) = Returns (out ! k)"
    using generateDataDisks_from_Returns [of vmName 0 azureDataDisks] by blast
  have "\<forall>i < length azureDataDisks.
          dd_Lun (out ! i) =
            Some (case add_Lun (azureDataDisks ! i) of Some l \<Rightarrow> l | None \<Rightarrow> word_of_nat i) \<and>
          (add_Lun (azureDataDisks ! i) = None \<longrightarrow> i < 2 ^ 31 \<longrightarrow>
             map_option sint (dd_Lun (out ! i)) = Some (int i)) \<and>
          dd_Caching (out ! i) =
            (if add_Caching (azureDataDisks ! i) \<noteq> '''' then add_Caching (azureDataDisks ! i) else ''None'') \<and>
          dd_DiskSizeGB (out ! i) = Some (add_DiskSizeGB (azureDataDisks ! i)) \<and>
          dd_ManagedDisk (out ! i) =
            Some \<lparr> mdp_StorageAccountType = add_StorageAccountType (azureDataDisks ! i) \<rparr> \<and>
          dd_CreateOption (out ! i) = ''Empty''"
  proof (intro allI impI)
    fix i assume i: "i < length azureDataDisks"
    have eq: "Returns (out ! i) = generateDataDisk vmName i (azureDataDisks ! i)"
      using out(3) i by simp
    have "out ! i = \<lparr> dd_Lun = Some (case add_Lun (azureDataDisks ! i) of Some l \<Rightarrow> l | None \<Rightarrow> word_of_nat i),
               dd_Name = Some (vmName @ ''-'' @ (if add_Name (azureDataDisks ! i) \<noteq> '''' then add_Name (azureDataDisks ! i) @ ''-'' else '''')
                                @ Itoa (sint (case add_Lun (azureDataDisks ! i) of Some l \<Rightarrow> l | None \<Rightarrow> word_of_nat i))
                                @ ''-data-disk''),
               dd_Caching = (if add_Caching (azureDataDisks ! i) \<noteq> '''' then add_Caching (azureDataDisks ! i) else ''None''),
               dd_ManagedDisk = Some \<lparr> mdp_StorageAccountType = add_StorageAccountType (azureDataDisks ! i) \<rparr>,
               dd_DiskSizeGB = Some (add_DiskSizeGB (azureDataDisks ! i)),
               dd_CreateOption = ''Empty'' \<rparr>"
      using eq unfolding generateDataDisk_Returns by simp
    then show "dd_Lun (out ! i) =
            Some (case add_Lun (azureDataDisks ! i) of Some l \<Rightarrow> l | None \<Rightarrow> word_of_nat i) \<and>
          (add_Lun (azureDataDisks ! i) = None \<longrightarrow> i < 2 ^ 31 \<longrightarrow>
             map_option sint (dd_Lun (out ! i)) = Some (int i)) \<and>
          dd_Caching (out ! i) =
            (if add_Caching (azureDataDisks ! i) \<noteq> '''' then add_Caching (azureDataDisks ! i) else ''None'') \<and>
          dd_DiskSizeGB (out ! i) = Some (add_DiskSizeGB (azureDataDisks ! i)) \<and>
          dd_ManagedDisk (out ! i) =
            Some \<lparr> mdp_StorageAccountType = add_StorageAccountType (azureDataDisks ! i) \<rparr> \<and>
          dd_CreateOption (out ! i) = ''Empty''"
      by (simp add: sint_index)
  qed
  then show ?thesis using out(1,2) by (auto simp: generateDataDisks_def)
qed

text \<open>Three descriptors, the middle one with an explicit LUN 7: the LUNs are 0, 7 and 2.\<close>

theorem generateDataDisks_descriptors_witness:
  "length demoDisks = 3 \<and>
   generateDataDisks ''vm-1'' demoDisks =
     Returns [\<lparr> dd_Lun = Some 0, dd_Name = Some ''vm-1-0-data-disk'', dd_Caching = ''None'',
                dd_ManagedDisk = Some \<lparr> mdp_StorageAccountType = ''Standard_LRS'' \<rparr>,
                dd_DiskSizeGB = Some 50, dd_CreateOption = ''Empty'' \<rparr>,
              \<lparr> dd_Lun = Some 7, dd_Name = Some ''vm-1-logs-7-data-disk'', dd_Caching = ''ReadOnly'',
                dd_ManagedDisk = Some \<lparr> mdp_StorageAccountType = ''Premium_LRS'' \<rparr>,
                dd_DiskSizeGB = Some 100, dd_CreateOption = ''Empty'' \<rparr>,
              \<lparr> dd_Lun = Some 2, dd_Name = Some ''vm-1-2-data-disk'', dd_Caching = ''None'',
                dd_ManagedDisk = Some \<lparr> mdp_StorageAccountType = ''Standard_LRS'' \<rparr>,
                dd_DiskSizeGB = Some 50, dd_CreateOption = ''Empty'' \<rparr>]"
  using generateDataDisks_descriptors [of "''vm-1''" demoDisks]
  by (simp add: demoDisks_def generateDataDisks_def generateDataDisk_Returns demoDisk_def
        Itoa_0 Itoa_2 Itoa_7)

subsection \<open>Claim C4\<close>

text \<open>
  Claim C4. When the NIC is reported attached to a machine (any non-empty holder, so also
  one other than the machine being torn down), \<^verbatim>\<open>nicDeleter\<close> returns the error
  \<^verbatim>\<open>Cannot delete NIC ... because it is attached to VM ...\<close> and issues nothing after the
  lookup. Whenever \<^verbatim>\<open>nicDeleter\<close> does issue a NIC deletion, the lookup had succeeded with
  an empty holder.
\<close>

theorem nicDeleter_keeps_attached_nic:
  "(spi_FetchAttachedVMfromNIC env resourceGroupName nicName (backend w) = (Inr vmHoldingNic, s1) \<and>
    vmHoldingNic \<noteq> '''' \<longrightarrow>
      nicDeleter env resourceGroupName nicName w =
        (Some (Errorf (''Cannot delete NIC '' @ nicName @ '' because it is attached to VM '' @ vmHoldingNic)),
         \<lparr> backend = s1, trace = trace w @ [FetchAttachedVMfromNIC_called resourceGroupName nicName] \<rparr>)) \<and>
   (DeleteNIC_called rg' nic' \<in> set (drop (length (trace w)) (trace (snd (nicDeleter env resourceGroupName nicName w)))) \<longrightarrow>
      fst (spi_FetchAttachedVMfromNIC env resourceGroupName nicName (backend w)) = Inr '''')"
  by (auto simp: nicDeleter_def call_def split: prod.splits sum.splits if_splits)

text \<open>A NIC held by \<open>vm-2\<close> is kept; the unattached NIC of the concrete backend is deleted.\<close>

theorem nicDeleter_keeps_attached_nic_witness:
  "spi_FetchAttachedVMfromNIC attachedEnv ''rg-1'' ''vm-1-nic'' (backend world0) = (Inr ''vm-2'', 1) \<and>
   ''vm-2'' \<noteq> '''' \<and>
   nicDeleter attachedEnv ''rg-1'' ''vm-1-nic'' world0 =
     (Some (Errorf ''Cannot delete NIC vm-1-nic because it is attached to VM vm-2''),
      \<lparr> backend = 1, trace = [FetchAttachedVMfromNIC_called ''rg-1'' ''vm-1-nic''] \<rparr>) \<and>
   DeleteNIC_called ''rg-1'' ''vm-1-nic''
     \<in> set (drop (length (trace world0)) (trace (snd (nicDeleter demoEnv ''rg-1'' ''vm-1-nic'' world0)))) \<and>
   fst (spi_FetchAttachedVMfromNIC demoEnv ''rg-1'' ''vm-1-nic'' (backend world0)) = Inr ''''"
proof -
  have a: "spi_FetchAttachedVMfromNIC attachedEnv ''rg-1'' ''vm-1-nic'' (backend world0) = (Inr ''vm-2'', 1)"
    by (simp add: attachedEnv_def demoEnv_def world0_def)
  have b: "DeleteNIC_called ''rg-1'' ''vm-1-nic''
     \<in> set (drop (length (trace world0)) (trace (snd (nicDeleter demoEnv ''rg-1'' ''vm-1-nic'' world0))))"
    by (simp add: nicDeleter_def call_def demoEnv_def world0_def)
  show ?thesis
    using a b
      nicDeleter_keeps_attached_nic [of attachedEnv "''rg-1''" "''vm-1-nic''" world0 "''vm-2''" 1 "''rg-1''" "''vm-1-nic''"]
      nicDeleter_keeps_attached_nic [of demoEnv "''rg-1''" "''vm-1-nic''" world0 "''vm-2''" 1 "''rg-1''" "''vm-1-nic''"]
    by (simp add: world0_def)
qed

subsection \<open>Claim C5\<close>

text \<open>
  Claim C5. If the machine lookup fails with an error that \<^verbatim>\<open>spi.NotFound\<close> accepts, the
  teardown goes from the lookup straight to \<^verbatim>\<open>spi.RunInParallel\<close> on the NIC deleter, the
  OS-disk deleter and one deleter per data disk: no detachment, no machine deletion. If it
  fails with any other error, the teardown returns that error (through
  \<^verbatim>\<open>spi.OnARMAPIErrorFail\<close>) and issues nothing else. If the NIC lookup fails with a
  not-found error, the NIC deleter returns no error and issues nothing else.
\<close>

theorem teardown_tolerates_absence:
  "(VM_Get env resourceGroupName VMName (backend w) = (Inl vmErr, s1) \<and> spi_NotFound env vmErr \<longrightarrow>
      deleteVMNicDisks env resourceGroupName VMName nicName diskName dataDiskNames w =
        (case spi_RunInParallel env
                ([nicDeleter env resourceGroupName nicName, diskDeleter env resourceGroupName diskName]
                   @ map (diskDeleter env resourceGroupName) dataDiskNames)
                \<lparr> backend = s1, trace = trace w @ [VM_Get_called resourceGroupName VMName] \<rparr> of
           (r, w') \<Rightarrow> (Returns r, w'))) \<and>
   (VM_Get env resourceGroupName VMName (backend w) = (Inl vmErr, s1) \<and> \<not> spi_NotFound env vmErr \<longrightarrow>
      deleteVMNicDisks env resourceGroupName VMName nicName diskName dataDiskNames w =
        (Returns (Some (spi_OnARMAPIErrorFail env ''virtual_machine'' vmErr ''vm.Get'' [])),
         \<lparr> backend = s1, trace = trace w @ [VM_Get_called resourceGroupName VMName] \<rparr>)) \<and>
   (spi_FetchAttachedVMfromNIC env resourceGroupName nicName (backend w) = (Inl err, s2) \<and>
    spi_NotFound env err \<longrightarrow>
      nicDeleter env resourceGroupName nicName w =
        (None, \<lparr> backend = s2, trace = trace w @ [FetchAttachedVMfromNIC_called resourceGroupName nicName] \<rparr>))"
  by (simp add: deleteVMNicDisks_def runDeleters_def deleters_def nicDeleter_def call_def
        prometheusServiceVM_def)

text \<open>The three cases on the concrete backend.\<close>

theorem teardown_tolerates_absence_witness:
  "VM_Get demoEnv ''rg-1'' ''vm-1'' (backend world0) = (Inl notFoundError, 1) \<and>
   spi_NotFound demoEnv notFoundError \<and>
   deleteVMNicDisks demoEnv ''rg-1'' ''vm-1'' ''vm-1-nic'' ''vm-1-os-disk'' [''vm-1-0-data-disk''] world0 =
     (Returns None,
      \<lparr> backend = 5,
        trace = [VM_Get_called ''rg-1'' ''vm-1'', FetchAttachedVMfromNIC_called ''rg-1'' ''vm-1-nic'',
                 DeleteNIC_called ''rg-1'' ''vm-1-nic'', DiskDeleter_called ''rg-1'' ''vm-1-os-disk'',
                 DiskDeleter_called ''rg-1'' ''vm-1-0-data-disk''] \<rparr>) \<and>
   VM_Get failingEnv ''rg-1'' ''vm-1'' (backend world0) = (Inl teardownFailure, 1) \<and>
   \<not> spi_NotFound failingEnv teardownFailure \<and>
   deleteVMNicDisks failingEnv ''rg-1'' ''vm-1'' ''vm-1-nic'' ''vm-1-os-disk'' [''vm-1-0-data-disk''] world0 =
     (Returns (Some teardownFailure), \<lparr> backend = 1, trace = [VM_Get_called ''rg-1'' ''vm-1''] \<rparr>) \<and>
   spi_FetchAttachedVMfromNIC nicGoneEnv ''rg-1'' ''vm-1-nic'' (backend world0) = (Inl notFoundError, 1) \<and>
   spi_NotFound nicGoneEnv notFoundError \<and>
   nicDeleter nicGoneEnv ''rg-1'' ''vm-1-nic'' world0 =
     (None, \<lparr> backend = 1, trace = [FetchAttachedVMfromNIC_called ''rg-1'' ''vm-1-nic''] \<rparr>)"
proof -
  have a: "VM_Get demoEnv ''rg-1'' ''vm-1'' (backend world0) = (Inl notFoundError, 1) \<and>
           spi_NotFound demoEnv notFoundError"
    by (simp add: demoEnv_def world0_def notFoundError_def)
  have b: "VM_Get failingEnv ''rg-1'' ''vm-1'' (backend world0) = (Inl teardownFailure, 1) \<and>
           \<not> spi_NotFound failingEnv teardownFailure"
    by (simp add: failingEnv_def demoEnv_def world0_def teardownFailure_def)
  have c: "spi_FetchAttachedVMfromNIC nicGoneEnv ''rg-1'' ''vm-1-nic'' (backend world0) = (Inl notFoundError, 1) \<and>
           spi_NotFound nicGoneEnv notFoundError"
    by (simp add: nicGoneEnv_def demoEnv_def world0_def notFoundError_def)
  have run: "spi_RunInParallel demoEnv
                [nicDeleter demoEnv ''rg-1'' ''vm-1-nic'', diskDeleter demoEnv ''rg-1'' ''vm-1-os-disk'',
                 diskDeleter demoEnv ''rg-1'' ''vm-1-0-data-disk'']
                \<lparr> backend = Suc 0, trace = [VM_Get_called ''rg-1'' ''vm-1''] \<rparr> =
     (None,
      \<lparr> backend = 5,
        trace = [VM_Get_called ''rg-1'' ''vm-1'', FetchAttachedVMfromNIC_called ''rg-1'' ''vm-1-nic'',
                 DeleteNIC_called ''rg-1'' ''vm-1-nic'', DiskDeleter_called ''rg-1'' ''vm-1-os-disk'',
                 DiskDeleter_called ''rg-1'' ''vm-1-0-data-disk''] \<rparr>)"
    by (simp add: demoEnv_def runInOrder_def nicDeleter_def diskDeleter_def call_def world0_def)
  have r1: "deleteVMNicDisks demoEnv ''rg-1'' ''vm-1'' ''vm-1-nic'' ''vm-1-os-disk'' [''vm-1-0-data-disk''] world0 =
        (case spi_RunInParallel demoEnv
                ([nicDeleter demoEnv ''rg-1'' ''vm-1-nic'', diskDeleter demoEnv ''rg-1'' ''vm-1-os-disk'']
                   @ map (diskDeleter demoEnv ''rg-1'') [''vm-1-0-data-disk''])
                \<lparr> backend = 1, trace = trace world0 @ [VM_Get_called ''rg-1'' ''vm-1''] \<rparr> of
           (r, w') \<Rightarrow> (Returns r, w'))"
    using teardown_tolerates_absence [of demoEnv "''rg-1''" "''vm-1''" world0 notFoundError 1 "''vm-1-nic''" "''vm-1-os-disk''"
             "[''vm-1-0-data-disk'']" notFoundError 1] a
    by blast
  have r2: "deleteVMNicDisks failingEnv ''rg-1'' ''vm-1'' ''vm-1-nic'' ''vm-1-os-disk'' [''vm-1-0-data-disk''] world0 =
        (Returns (Some (spi_OnARMAPIErrorFail failingEnv ''virtual_machine'' teardownFailure ''vm.Get'' [])),
         \<lparr> backend = 1, trace = trace world0 @ [VM_Get_called ''rg-1'' ''vm-1''] \<rparr>)"
    using teardown_tolerates_absence [of failingEnv "''rg-1''" "''vm-1''" world0 teardownFailure 1 "''vm-1-nic''" "''vm-1-os-disk''"
             "[''vm-1-0-data-disk'']" notFoundError 1] b
    by blast
  have r3: "nicDeleter nicGoneEnv ''rg-1'' ''vm-1-nic'' world0 =
        (None, \<lparr> backend = 1, trace = trace world0 @ [FetchAttachedVMfromNIC_called ''rg-1'' ''vm-1-nic''] \<rparr>)"
    using teardown_tolerates_absence [of nicGoneEnv "''rg-1''" "''vm-1''" world0 notFoundError 1 "''vm-1-nic''" "''vm-1-os-disk''"
             "[''vm-1-0-data-disk'']" notFoundError 1] c
    by blast
  have wrap: "spi_OnARMAPIErrorFail failingEnv ''virtual_machine'' teardownFailure ''vm.Get'' [] = teardownFailure"
    by (simp add: failingEnv_def demoEnv_def)
  have t0: "trace world0 = []"
    by (simp add: world0_def)
  show ?thesis
    using a b c by (simp add: r1 r2 r3 run wrap t0)
qed

subsection \<open>Claim C6\<close>



subsection \<open>Claim C7\<close>



subsection \<open>Claim C8\<close>

text \<open>
  Claim C8, as the code has it. The two concatenations return a string for every input.
  \<^verbatim>\<open>getAzureDataDiskPrefix\<close> returns a string for every name and every present LUN, and
  panics on an absent LUN, which it dereferences unguarded. Its caller
  \<^verbatim>\<open>getAzureDataDiskNames\<close> replaces an absent LUN by the position first, and returns a
  name for every descriptor. (As functions of their arguments all of them give the same
  result on the same input.)
\<close>

theorem naming_helpers_total_on_present_lun:
  "dependencyNameFromVMName vmName suffix = vmName @ suffix \<and>
   dependencyNameFromVMNameAndDependency dependency vmName suffix = vmName @ ''-'' @ dependency @ suffix \<and>
   getAzureDataDiskPrefix name (Some lun) =
     Returns ((if name = '''' then '''' else name @ ''-'') @ Itoa (sint lun)) \<and>
   getAzureDataDiskPrefix name None = Panics NilPointerDereference \<and>
   (\<exists>names. getAzureDataDiskNames azureDataDisks vmName suffix = Returns names \<and>
            length names = length azureDataDisks)"
  using names_from_Returns [of 0 azureDataDisks vmName suffix]
  by (simp add: dependencyNameFromVMName_def dependencyNameFromVMNameAndDependency_def
        getAzureDataDiskPrefix_def getAzureDataDiskNames_def)

text \<open>The prefix of a disk named \<open>logs\<close> with an absent LUN is a nil dereference.\<close>

theorem naming_helpers_total_on_present_lun_counterexample:
  "getAzureDataDiskPrefix ''logs'' None = Panics NilPointerDereference"
  by (simp add: getAzureDataDiskPrefix_def)

subsection \<open>Claim C9\<close>

text \<open>
  Claim C9. Two requests that agree on machine class and secret, and whose machine names
  are equal after \<^verbatim>\<open>strings.ToLower\<close>, make \<^verbatim>\<open>createVMNicDisk\<close> behave the same: same
  result, same backend operations with the same arguments. The names it works with are
  derived from the lowered machine name: the VM name is the lowered name, the NIC and
  OS-disk names are the lowered name with their suffixes, and the data-disk names are
  those of \<^verbatim>\<open>getAzureDataDiskNames\<close> for the lowered name.
\<close>

theorem machine_name_lowered_before_naming:
  assumes "ToLower (unicode_ToLower env) (req_MachineName req1) =
           ToLower (unicode_ToLower env) (req_MachineName req2)"
    and "req_MachineClass req1 = req_MachineClass req2"
    and "req_Secret req1 = req_Secret req2"
  shows "createVMNicDisk env d req1 w = createVMNicDisk env d req2 w \<and>
         (prepare env d req1 w = (Returns (Inr (l, subnet)), d1, w2) \<longrightarrow>
            l_vmName l = ToLower (unicode_ToLower env) (req_MachineName req1) \<and>
            l_nicName l = ToLower (unicode_ToLower env) (req_MachineName req1) @ ''-nic'' \<and>
            l_diskName l = ToLower (unicode_ToLower env) (req_MachineName req1) @ ''-os-disk'' \<and>
            getAzureDataDiskNames (asp_DataDisks (avp_StorageProfile (aps_Properties (AzureProviderSpec d1))))
              (ToLower (unicode_ToLower env) (req_MachineName req1)) ''-data-disk'' = Returns (l_dataDiskNames l))"
proof -
  have "createVMNicDisk env d req1 w = createVMNicDisk env d req2 w"
    by (simp add: createVMNicDisk_def prepare_cong [OF assms])
  moreover have "prepare env d req1 w = (Returns (Inr (l, subnet)), d1, w2) \<Longrightarrow>
            l_vmName l = ToLower (unicode_ToLower env) (req_MachineName req1) \<and>
            l_nicName l = ToLower (unicode_ToLower env) (req_MachineName req1) @ ''-nic'' \<and>
            l_diskName l = ToLower (unicode_ToLower env) (req_MachineName req1) @ ''-os-disk'' \<and>
            getAzureDataDiskNames (asp_DataDisks (avp_StorageProfile (aps_Properties (AzureProviderSpec d1))))
              (ToLower (unicode_ToLower env) (req_MachineName req1)) ''-data-disk'' = Returns (l_dataDiskNames l)"
    by (auto simp: prepare_def Let_def dependencyNameFromVMName_def nicSuffix_def diskSuffix_def
          dataDiskSuffix_def getAzureDataDiskNames_def
        split: sum.splits prod.splits option.splits outcome.splits if_splits)
  ultimately show ?thesis by blast
qed

text \<open>The machine names \<open>VM-1\<close> and \<open>vm-1\<close>.\<close>

theorem machine_name_lowered_before_naming_witness:
  "ToLower (unicode_ToLower demoEnv) (req_MachineName upperRequest) =
     ToLower (unicode_ToLower demoEnv) (req_MachineName demoRequest) \<and>
   req_MachineName upperRequest \<noteq> req_MachineName demoRequest \<and>
   req_MachineClass upperRequest = req_MachineClass demoRequest \<and>
   req_Secret upperRequest = req_Secret demoRequest \<and>
   createVMNicDisk demoEnv demoPlugin upperRequest world0 =
     createVMNicDisk demoEnv demoPlugin demoRequest world0 \<and>
   prepare demoEnv demoPlugin upperRequest world0 =
     (Returns (Inr (demoLocals, demoSubnet)), demoPlugin, worldAfterSubnet) \<and>
   l_vmName demoLocals = ''vm-1'' \<and> l_nicName demoLocals = ''vm-1-nic'' \<and>
   l_diskName demoLocals = ''vm-1-os-disk'' \<and> l_dataDiskNames demoLocals = [''vm-1-0-data-disk'']"
proof -
  have low: "ToLower (unicode_ToLower demoEnv) (req_MachineName upperRequest) =
             ToLower (unicode_ToLower demoEnv) (req_MachineName demoRequest)"
    by (simp add: upperRequest_def demoRequest_def ToLower_VM1 ToLower_vm1)
  have mc: "req_MachineClass upperRequest = req_MachineClass demoRequest"
    by (simp add: upperRequest_def)
  have sec: "req_Secret upperRequest = req_Secret demoRequest"
    by (simp add: upperRequest_def)
  have prep: "prepare demoEnv demoPlugin upperRequest world0 =
     (Returns (Inr (demoLocals, demoSubnet)), demoPlugin, worldAfterSubnet)"
    by (simp add: prepare_def demoEnv_def upperRequest_def demoRequest_def demoSpec_def demoProperties_def
        demoPlugin_def world0_def worldAfterSubnet_def demoLocals_def call_def ToLower_VM1 demo_names
        dependencyNameFromVMName_def nicSuffix_def diskSuffix_def Let_def)
  have ne: "req_MachineName upperRequest \<noteq> req_MachineName demoRequest"
    by (simp add: upperRequest_def demoRequest_def)
  show ?thesis
    using machine_name_lowered_before_naming [OF low mc sec, where d = demoPlugin and w = world0 and l = demoLocals and subnet = demoSubnet
             and ?d1.0 = demoPlugin and ?w2.0 = worldAfterSubnet]
      low mc sec prep ne
    by (simp add: demoLocals_def)
qed

subsection \<open>Claim C10\<close>

text \<open>
  Claim C10. With an empty image ID, \<^verbatim>\<open>getImageReference\<close> returns exactly when the URN is
  present and has at least three colons, and then holds the first four parts. An absent
  URN is a nil dereference, a URN with \<open>k < 3\<close> colons an index \<open>k + 1\<close> out of range of
  \<open>k + 1\<close> parts. The panic is not turned into an error: the image part of
  \<^verbatim>\<open>createVMNicDisk\<close> panics, and so does \<^verbatim>\<open>createVMNicDisk\<close> once the NIC is fetched.
\<close>

theorem getImageReference_returns_iff_four_part_urn:
  assumes "air_ID (asp_ImageReference (avp_StorageProfile (aps_Properties (AzureProviderSpec d)))) = ''''"
  shows "((\<exists>r. getImageReference d = Returns r) \<longleftrightarrow>
            (\<exists>urn. air_URN (asp_ImageReference (avp_StorageProfile (aps_Properties (AzureProviderSpec d)))) = Some urn \<and>
                   3 \<le> count_list urn (CHR '':''))) \<and>
         (air_URN (asp_ImageReference (avp_StorageProfile (aps_Properties (AzureProviderSpec d)))) = None \<longrightarrow>
            getImageReference d = Panics NilPointerDereference) \<and>
         (air_URN (asp_ImageReference (avp_StorageProfile (aps_Properties (AzureProviderSpec d)))) = Some urn \<and>
          count_list urn (CHR '':'') < 3 \<longrightarrow>
            getImageReference d =
              Panics (IndexOutOfRange (Suc (count_list urn (CHR '':''))) (Suc (count_list urn (CHR '':''))))) \<and>
         (air_URN (asp_ImageReference (avp_StorageProfile (aps_Properties (AzureProviderSpec d)))) = Some urn \<and>
          3 \<le> count_list urn (CHR '':'') \<longrightarrow>
            getImageReference d =
              Returns \<lparr> ir_ID = None, ir_Publisher = Some (Split urn (CHR '':'') ! 0),
                        ir_Offer = Some (Split urn (CHR '':'') ! 1), ir_Sku = Some (Split urn (CHR '':'') ! 2),
                        ir_Version = Some (Split urn (CHR '':'') ! 3) \<rparr>) \<and>
         (getImageReference d = Panics p \<longrightarrow> resolveImage env d l w3 = (Panics p, w3)) \<and>
         (prepare env d0 req w = (Returns (Inr (l, subnet)), d, w2) \<and>
          createNIC env d l subnet w2 = (Returns (Inr NIC), w3) \<and>
          getImageReference d = Panics p \<longrightarrow>
            createVMNicDisk env d0 req w = (Panics p, d, w3))"
proof -
  let ?urn = "air_URN (asp_ImageReference (avp_StorageProfile (aps_Properties (AzureProviderSpec d))))"
  have none: "?urn = None \<Longrightarrow> getImageReference d = Panics NilPointerDereference"
    using assms by (simp add: getImageReference_def)
  have some: "\<And>u. ?urn = Some u \<Longrightarrow> getImageReference d =
     (if 3 \<le> count_list u (CHR '':'')
      then Returns \<lparr> ir_ID = None, ir_Publisher = Some (Split u (CHR '':'') ! 0),
                     ir_Offer = Some (Split u (CHR '':'') ! 1), ir_Sku = Some (Split u (CHR '':'') ! 2),
                     ir_Version = Some (Split u (CHR '':'') ! 3) \<rparr>
      else Panics (IndexOutOfRange (Suc (count_list u (CHR '':''))) (Suc (count_list u (CHR '':'')))))"
    using assms by (rule getImageReference_URN)
  have iff: "(\<exists>r. getImageReference d = Returns r) \<longleftrightarrow> (\<exists>u. ?urn = Some u \<and> 3 \<le> count_list u (CHR '':''))"
  proof (cases ?urn)
    case None
    then show ?thesis using none by simp
  next
    case (Some u)
    then show ?thesis using some [OF Some] by auto
  qed
  have res: "getImageReference d = Panics p \<Longrightarrow> resolveImage env d l w3 = (Panics p, w3)"
    using assms by (simp add: resolveImage_def)
  have top: "prepare env d0 req w = (Returns (Inr (l, subnet)), d, w2) \<Longrightarrow>
          createNIC env d l subnet w2 = (Returns (Inr NIC), w3) \<Longrightarrow>
          getImageReference d = Panics p \<Longrightarrow>
            createVMNicDisk env d0 req w = (Panics p, d, w3)"
    using res by (simp add: createVMNicDisk_def)
  show ?thesis
    using none some iff res top by auto
qed

text \<open>No URN, the two-part URN \<open>Canonical:UbuntuServer\<close>, and a four-part URN.\<close>

theorem getImageReference_returns_iff_four_part_urn_witness:
  "air_ID (asp_ImageReference (avp_StorageProfile (aps_Properties (AzureProviderSpec noUrnPlugin)))) = '''' \<and>
   air_URN (asp_ImageReference (avp_StorageProfile (aps_Properties (AzureProviderSpec noUrnPlugin)))) = None \<and>
   getImageReference noUrnPlugin = Panics NilPointerDereference \<and>
   air_ID (asp_ImageReference (avp_StorageProfile (aps_Properties (AzureProviderSpec shortUrnPlugin)))) = '''' \<and>
   air_URN (asp_ImageReference (avp_StorageProfile (aps_Properties (AzureProviderSpec shortUrnPlugin)))) =
     Some ''Canonical:UbuntuServer'' \<and>
   count_list ''Canonical:UbuntuServer'' (CHR '':'') < 3 \<and>
   getImageReference shortUrnPlugin = Panics (IndexOutOfRange 2 2) \<and>
   resolveImage shortUrnEnv shortUrnPlugin demoLocals (worldAfterNIC shortUrnPlugin) =
     (Panics (IndexOutOfRange 2 2), worldAfterNIC shortUrnPlugin) \<and>
   prepare shortUrnEnv demoPlugin demoRequest world0 =
     (Returns (Inr (demoLocals, demoSubnet)), shortUrnPlugin, worldAfterSubnet) \<and>
   createNIC shortUrnEnv shortUrnPlugin demoLocals demoSubnet worldAfterSubnet =
     (Returns (Inr demoNIC), worldAfterNIC shortUrnPlugin) \<and>
   createVMNicDisk shortUrnEnv demoPlugin demoRequest world0 =
     (Panics (IndexOutOfRange 2 2), shortUrnPlugin, worldAfterNIC shortUrnPlugin) \<and>
   air_ID (asp_ImageReference (avp_StorageProfile (aps_Properties (AzureProviderSpec demoPlugin)))) = '''' \<and>
   air_URN (asp_ImageReference (avp_StorageProfile (aps_Properties (AzureProviderSpec demoPlugin)))) =
     Some ''Canonical:UbuntuServer:18.04-LTS:latest'' \<and>
   3 \<le> count_list ''Canonical:UbuntuServer:18.04-LTS:latest'' (CHR '':'') \<and>
   getImageReference demoPlugin =
     Returns \<lparr> ir_ID = None, ir_Publisher = Some ''Canonical'', ir_Offer = Some ''UbuntuServer'',
               ir_Sku = Some ''18.04-LTS'', ir_Version = Some ''latest'' \<rparr>"
proof -
  have id1: "air_ID (asp_ImageReference (avp_StorageProfile (aps_Properties (AzureProviderSpec noUrnPlugin)))) = ''''"
    and urn1: "air_URN (asp_ImageReference (avp_StorageProfile (aps_Properties (AzureProviderSpec noUrnPlugin)))) = None"
    by (simp_all add: noUrnPlugin_def specWithImage_def demoPlugin_def demoSpec_def demoProperties_def)
  have id2: "air_ID (asp_ImageReference (avp_StorageProfile (aps_Properties (AzureProviderSpec shortUrnPlugin)))) = ''''"
    and urn2: "air_URN (asp_ImageReference (avp_StorageProfile (aps_Properties (AzureProviderSpec shortUrnPlugin)))) =
                 Some ''Canonical:UbuntuServer''"
    by (simp_all add: shortUrnPlugin_def shortUrnImage_def specWithImage_def demoPlugin_def demoSpec_def
          demoProperties_def)
  have id3: "air_ID (asp_ImageReference (avp_StorageProfile (aps_Properties (AzureProviderSpec demoPlugin)))) = ''''"
    and urn3: "air_URN (asp_ImageReference (avp_StorageProfile (aps_Properties (AzureProviderSpec demoPlugin)))) =
                 Some ''Canonical:UbuntuServer:18.04-LTS:latest''"
    by (simp_all add: demoPlugin_def demoSpec_def demoProperties_def)
  have cnt2: "count_list ''Canonical:UbuntuServer'' (CHR '':'') = 1"
    by simp
  have cnt3: "count_list ''Canonical:UbuntuServer:18.04-LTS:latest'' (CHR '':'') = 3"
    by simp
  have prep: "prepare shortUrnEnv demoPlugin demoRequest world0 =
     (Returns (Inr (demoLocals, demoSubnet)), shortUrnPlugin, worldAfterSubnet)"
    using prepare_with_image [of shortUrnImage] by (simp add: shortUrnEnv_def shortUrnPlugin_def)
  have nic: "createNIC shortUrnEnv shortUrnPlugin demoLocals demoSubnet worldAfterSubnet =
     (Returns (Inr demoNIC), worldAfterNIC shortUrnPlugin)"
    by (rule createNIC_demo) (simp_all add: shortUrnEnv_def)
  have p1: "getImageReference noUrnPlugin = Panics NilPointerDereference"
    using getImageReference_returns_iff_four_part_urn [OF id1, where urn = "[]" and p = NilPointerDereference
                 and env = demoEnv and l = demoLocals and ?w3.0 = world0 and ?d0.0 = demoPlugin
                 and req = demoRequest and w = world0 and subnet = demoSubnet and ?w2.0 = world0
                 and NIC = demoNIC] urn1
    by simp
  have p2: "getImageReference shortUrnPlugin = Panics (IndexOutOfRange 2 2)"
    using getImageReference_returns_iff_four_part_urn [OF id2, where urn = "''Canonical:UbuntuServer''" and p = "IndexOutOfRange 2 2"
                 and env = shortUrnEnv and l = demoLocals
                 and ?w3.0 = "worldAfterNIC shortUrnPlugin" and ?d0.0 = demoPlugin and req = demoRequest
                 and w = world0 and subnet = demoSubnet and ?w2.0 = worldAfterSubnet and NIC = demoNIC]
          urn2 cnt2
    by (simp add: numeral_2_eq_2)
  have p3: "resolveImage shortUrnEnv shortUrnPlugin demoLocals (worldAfterNIC shortUrnPlugin) =
              (Panics (IndexOutOfRange 2 2), worldAfterNIC shortUrnPlugin)"
       and p4: "createVMNicDisk shortUrnEnv demoPlugin demoRequest world0 =
                  (Panics (IndexOutOfRange 2 2), shortUrnPlugin, worldAfterNIC shortUrnPlugin)"
    using getImageReference_returns_iff_four_part_urn [OF id2, where p = "IndexOutOfRange 2 2" and env = shortUrnEnv and l = demoLocals
                 and ?w3.0 = "worldAfterNIC shortUrnPlugin" and ?d0.0 = demoPlugin and req = demoRequest
                 and w = world0 and subnet = demoSubnet and ?w2.0 = worldAfterSubnet and NIC = demoNIC]
          p2 prep nic
    by blast+
  have p5: "getImageReference demoPlugin =
     Returns \<lparr> ir_ID = None, ir_Publisher = Some ''Canonical'', ir_Offer = Some ''UbuntuServer'',
               ir_Sku = Some ''18.04-LTS'', ir_Version = Some ''latest'' \<rparr>"
    using getImageReference_returns_iff_four_part_urn [OF id3, where urn = "''Canonical:UbuntuServer:18.04-LTS:latest''" and p = NilPointerDereference
                 and env = demoEnv and l = demoLocals and ?w3.0 = world0 and ?d0.0 = demoPlugin
                 and req = demoRequest and w = world0 and subnet = demoSubnet and ?w2.0 = world0
                 and NIC = demoNIC] urn3 cnt3
    by (simp add: demo_split)
  show ?thesis
    using id1 urn1 id2 urn2 id3 urn3 cnt2 cnt3 prep nic p1 p2 p3 p4 p5 by simp
qed

section \<open>The happy path, end to end\<close>

text \<open>
  On the concrete backend the whole of \<^verbatim>\<open>createVMNicDisk\<close> runs through: eleven backend
  operations, the NIC submitted as \<open>vm-1-nic\<close>, the machine as \<open>vm-1\<close> with the data disk
  \<open>vm-1-0-data-disk\<close> on LUN 0.
\<close>

lemma demo_VMParameters:
  "\<exists>vm. getVMParameters (\<lambda>s. s) demoPlugin ''vm-1'' (Some \<lparr> img_Plan = Some \<lparr> pp_Publisher = Some ''Canonical'', pp_Name = Some ''18.04-LTS'', pp_Product = Some ''UbuntuServer'' \<rparr> \<rparr>) ''nic-id-1'' = Returns vm \<and>
     vm_Name vm = Some ''vm-1'' \<and>
     od_Name (sp_OsDisk (vmp_StorageProfile (vm_Properties vm))) = Some ''vm-1-os-disk'' \<and>
     sp_DataDisks (vmp_StorageProfile (vm_Properties vm)) =
       Some [\<lparr> dd_Lun = Some 0, dd_Name = Some ''vm-1-0-data-disk'', dd_Caching = ''None'',
                dd_ManagedDisk = Some \<lparr> mdp_StorageAccountType = ''Standard_LRS'' \<rparr>,
                dd_DiskSizeGB = Some 50, dd_CreateOption = ''Empty'' \<rparr>]"
  apply (simp only: getVMParameters_def demo_imageReference)
  apply (simp add: Let_def demoPlugin_def demoSpec_def demoProperties_def
       demo_dataDisks dependencyNameFromVMName_def diskSuffix_def)
  done

lemma happy_path_run:
  "case createVMNicDisk demoEnv demoPlugin demoRequest world0 of
     (r, d1, w) \<Rightarrow>
       r = Returns (Inr demoVM) \<and> d1 = demoPlugin \<and> backend w = 11 \<and>
       [(rg, name). Nic_CreateOrUpdate_called rg name params \<leftarrow> trace w] = [(''rg-1'', ''vm-1-nic'')] \<and>
       [(name, sp_DataDisks (vmp_StorageProfile (vm_Properties params))).
          VM_CreateOrUpdate_called rg name params \<leftarrow> trace w] =
         [(''vm-1'', Some [\<lparr> dd_Lun = Some 0, dd_Name = Some ''vm-1-0-data-disk'', dd_Caching = ''None'',
                dd_ManagedDisk = Some \<lparr> mdp_StorageAccountType = ''Standard_LRS'' \<rparr>,
                dd_DiskSizeGB = Some 50, dd_CreateOption = ''Empty'' \<rparr>])]"
proof -
  have prep: "prepare demoEnv demoPlugin demoRequest world0 =
     (Returns (Inr (demoLocals, demoSubnet)), demoPlugin, worldAfterSubnet)"
    by (simp add: prepare_def demoEnv_def demoRequest_def demoSpec_def demoProperties_def
        demoPlugin_def world0_def worldAfterSubnet_def demoLocals_def call_def ToLower_vm1 demo_names
        dependencyNameFromVMName_def nicSuffix_def diskSuffix_def Let_def)
  have nic: "createNIC demoEnv demoPlugin demoLocals demoSubnet worldAfterSubnet =
     (Returns (Inr demoNIC), worldAfterNIC demoPlugin)"
    by (rule createNIC_demo) simp_all
  have img: "resolveImage demoEnv demoPlugin demoLocals (worldAfterNIC demoPlugin) =
     (Returns (Inr (Some \<lparr> img_Plan = Some \<lparr> pp_Publisher = Some ''Canonical'', pp_Name = Some ''18.04-LTS'', pp_Product = Some ''UbuntuServer'' \<rparr> \<rparr>)),
      \<lparr> backend = 8, trace = trace (worldAfterNIC demoPlugin) @
          [Images_Get_called ''westeurope'' ''Canonical'' ''UbuntuServer'' ''18.04-LTS'' ''latest'',
           Marketplace_Get_called ''Canonical'' ''UbuntuServer'' ''18.04-LTS'',
           Marketplace_Create_called ''Canonical'' ''UbuntuServer'' ''18.04-LTS''
             \<lparr> agr_Accepted = Some True, agr_Plan = Some ''18.04-LTS'' \<rparr>] \<rparr>)"
    by (simp add: resolveImage_def demo_imageReference Let_def call_def demoEnv_def worldAfterNIC_def)
       (simp add: demoPlugin_def demoSpec_def demoProperties_def)
  obtain vm where vm: "getVMParameters (\<lambda>s. s) demoPlugin ''vm-1'' (Some \<lparr> img_Plan = Some \<lparr> pp_Publisher = Some ''Canonical'', pp_Name = Some ''18.04-LTS'', pp_Product = Some ''UbuntuServer'' \<rparr> \<rparr>) ''nic-id-1'' = Returns vm"
     "vm_Name vm = Some ''vm-1''"
     "sp_DataDisks (vmp_StorageProfile (vm_Properties vm)) =
       Some [\<lparr> dd_Lun = Some 0, dd_Name = Some ''vm-1-0-data-disk'', dd_Caching = ''None'',
                dd_ManagedDisk = Some \<lparr> mdp_StorageAccountType = ''Standard_LRS'' \<rparr>,
                dd_DiskSizeGB = Some 50, dd_CreateOption = ''Empty'' \<rparr>]"
    using demo_VMParameters by blast
  have enc: "base64_EncodeToString demoEnv = (\<lambda>s. s)"
    by (simp add: demoEnv_def)
  have cvm: "createVM demoEnv demoPlugin demoLocals (Some \<lparr> img_Plan = Some \<lparr> pp_Publisher = Some ''Canonical'', pp_Name = Some ''18.04-LTS'', pp_Product = Some ''UbuntuServer'' \<rparr> \<rparr>) demoNIC
      \<lparr> backend = 8, trace = trace (worldAfterNIC demoPlugin) @
          [Images_Get_called ''westeurope'' ''Canonical'' ''UbuntuServer'' ''18.04-LTS'' ''latest'',
           Marketplace_Get_called ''Canonical'' ''UbuntuServer'' ''18.04-LTS'',
           Marketplace_Create_called ''Canonical'' ''UbuntuServer'' ''18.04-LTS''
             \<lparr> agr_Accepted = Some True, agr_Plan = Some ''18.04-LTS'' \<rparr>] \<rparr>
     = (Returns (Inr demoVM),
        \<lparr> backend = 11, trace = trace (worldAfterNIC demoPlugin) @
          [Images_Get_called ''westeurope'' ''Canonical'' ''UbuntuServer'' ''18.04-LTS'' ''latest'',
           Marketplace_Get_called ''Canonical'' ''UbuntuServer'' ''18.04-LTS'',
           Marketplace_Create_called ''Canonical'' ''UbuntuServer'' ''18.04-LTS''
             \<lparr> agr_Accepted = Some True, agr_Plan = Some ''18.04-LTS'' \<rparr>,
           VM_CreateOrUpdate_called ''rg-1'' ''vm-1'' vm,
           VMFuture_WaitForCompletionRef_called 8, VMFuture_Result_called 8] \<rparr>)"
    by (simp add: createVM_def enc demoNIC_def demoLocals_def vm call_def)
       (simp add: demoEnv_def demoNIC_def call_def)
  have run: "createVMNicDisk demoEnv demoPlugin demoRequest world0 =
      (Returns (Inr demoVM), demoPlugin,
        \<lparr> backend = 11, trace = trace (worldAfterNIC demoPlugin) @
          [Images_Get_called ''westeurope'' ''Canonical'' ''UbuntuServer'' ''18.04-LTS'' ''latest'',
           Marketplace_Get_called ''Canonical'' ''UbuntuServer'' ''18.04-LTS'',
           Marketplace_Create_called ''Canonical'' ''UbuntuServer'' ''18.04-LTS''
             \<lparr> agr_Accepted = Some True, agr_Plan = Some ''18.04-LTS'' \<rparr>,
           VM_CreateOrUpdate_called ''rg-1'' ''vm-1'' vm,
           VMFuture_WaitForCompletionRef_called 8, VMFuture_Result_called 8] \<rparr>)"
    by (simp add: createVMNicDisk_def prep nic img cvm)
  show ?thesis
    by (simp add: run worldAfterNIC_def vm)
qed

end
